theory Spec2Isabelle
  imports Complex_Main "HOL-Library.Char_ord" "HOL-Library.List_Lexorder"
begin

section \<open>Python values, exceptions and the outside world\<close>

text \<open>
  The module \<^verbatim>\<open>source/qualipy.py\<close> is Python 2. Its values are dynamically typed, so the
  JSON documents it handles, and the cells of its data frames, are values of one datatype.
  A \<^verbatim>\<open>dict\<close> is the list of its items in the order the dictionary iterates them; lookups
  go through \<open>map_of\<close>. \<open>PStr\<close> stands for both \<^verbatim>\<open>str\<close> and \<^verbatim>\<open>unicode\<close>
  (in Python 2 \<^verbatim>\<open>u'' == ''\<close> holds), \<open>PNum\<close> for \<^verbatim>\<open>int\<close> and \<^verbatim>\<open>float\<close>
  (\<^verbatim>\<open>100.0 == 100\<close> holds), and \<open>PNone\<close> for \<^verbatim>\<open>None\<close> and for the null (NaN) that
  pandas puts into a cell without a value.
\<close>

datatype pyval =
    PNone
  | PBool bool
  | PNum rat
  | PStr string
  | PList "pyval list"
  | PDict "(string \<times> pyval) list"

text \<open>Every \<^verbatim>\<open>raise\<close> of the module and of the libraries it calls is a value.\<close>

datatype error =
    IndexError
  | KeyError string
  | TypeError
  | NameError string
  | ValueError string
  | HTTPError nat
  | IOError string
  | OSError string
  | BadZipfile
  | MissingSchema
  | ConnectionError

text \<open>Python's \<^verbatim>\<open>s[-1]\<close>: the last character, \<^verbatim>\<open>IndexError\<close> on the empty string.\<close>

definition last_char :: "string \<Rightarrow> error + char" where
  "last_char s = (if s = [] then Inl IndexError else Inr (last s))"

text \<open>\<^verbatim>\<open>obj[key]\<close> for a string key: defined on dictionaries only.\<close>

fun getitem :: "pyval \<Rightarrow> string \<Rightarrow> error + pyval" where
  "getitem (PDict kvs) k = (case map_of kvs k of None \<Rightarrow> Inl (KeyError k) | Some v \<Rightarrow> Inr v)"
| "getitem _ k = Inl TypeError"

section \<open>The client object\<close>

text \<open>
  The private fields of class \<^verbatim>\<open>Qualtrics\<close>. The output path is whatever object the
  caller passed (the methods test \<^verbatim>\<open>isinstance(..., str)\<close> later), so it is a \<open>pyval\<close>.
\<close>

record qualtrics =
  api_token_header :: "(string \<times> string) list"
  project_name :: string
  base_url :: string
  path_to_output_files :: pyval
  use_timestamps :: bool

text \<open>\<^verbatim>\<open>Qualtrics.__init__\<close>, lines 15 to 35.\<close>

definition Qualtrics_init ::
  "string \<Rightarrow> string \<Rightarrow> string \<Rightarrow> pyval \<Rightarrow> string \<Rightarrow> bool \<Rightarrow> error + qualtrics" where
  "Qualtrics_init api_token project url path content_type use_timestamps_for_filenames =
     (let self = \<lparr> api_token_header =
                     [(''x-api-token'', api_token),
                      (''Content-Type'', ''application/'' @ content_type)],
                   project_name = project,
                   base_url = url,
                   path_to_output_files = path,
                   use_timestamps = use_timestamps_for_filenames \<rparr>
      in case last_char (base_url self) of
           Inl e \<Rightarrow> Inl e
         | Inr c \<Rightarrow>
             if c \<noteq> CHR ''/'' then Inr (self\<lparr>base_url := base_url self @ ''/''\<rparr>)
             else Inr self)"

section \<open>HTTP, the clock and the operating system\<close>

text \<open>
  The module talks to a remote server through \<^verbatim>\<open>requests\<close>, sleeps, reads the clock and
  writes files. The world records what the program did: the requests it issued, in order,
  the arguments of its \<^verbatim>\<open>time.sleep\<close> calls summed up, the lines it printed, and the state
  of the operating system, of a type the model leaves open.
\<close>

type_synonym headers = "(string \<times> string) list"

datatype request =
    POST string "(string \<times> pyval) list" headers
  | GET string headers

record response =
  status_code :: nat
  content :: string

record 'os world =
  trace :: "request list"
  slept :: int
  printed :: "string list"
  os :: 'os

record datetime =
  year :: nat
  month :: nat
  day :: nat
  hour :: nat
  minute :: nat
  second :: nat

text \<open>
  A \<^verbatim>\<open>zipfile.ZipFile\<close> object, by the two operations the module uses: the list that
  \<^verbatim>\<open>NameToInfo.keys()\<close> returns, and \<^verbatim>\<open>read(name)\<close>.
\<close>

record zipfile =
  NameToInfo_keys :: "string list"
  zread :: "string \<Rightarrow> string option"

text \<open>A pandas data frame: its column labels and its rows of cells.\<close>

datatype label = LStr string | LInt nat

record table =
  columns :: "label list"
  rows :: "pyval list list"

text \<open>
  What the libraries and the outside world answer is a parameter of the model. The server
  may answer each request from everything that happened before it (the world at the time
  of the request), so a job can be pending at one poll and complete at the next. Parsers
  return \<open>None\<close> where the library raises. An operation of the operating system returns
  the exception it raised, if any, and the new state.
\<close>

record 'os env =
  http_post :: "'os world \<Rightarrow> string \<Rightarrow> (string \<times> pyval) list \<Rightarrow> headers \<Rightarrow> error + response"
  http_get :: "'os world \<Rightarrow> string \<Rightarrow> headers \<Rightarrow> error + response"
  json_loads :: "string \<Rightarrow> pyval option"
  zip_open :: "string \<Rightarrow> zipfile option"
  pd_DataFrame_other :: "pyval list \<Rightarrow> error + table"
  pd_number :: "pyval list \<Rightarrow> rat \<Rightarrow> rat"
  datetime_now :: "'os world \<Rightarrow> datetime"
  os_path_exists :: "'os \<Rightarrow> string \<Rightarrow> bool"
  os_path_isdir_realpath :: "'os \<Rightarrow> string \<Rightarrow> bool"
  os_path_abspath :: "'os \<Rightarrow> string \<Rightarrow> string"
  os_path_sep :: char
  os_mkdir :: "'os \<Rightarrow> string \<Rightarrow> error option \<times> 'os"
  file_open_w :: "'os \<Rightarrow> string \<Rightarrow> error option \<times> 'os"
  json_dump :: "'os \<Rightarrow> pyval \<Rightarrow> string \<Rightarrow> error option \<times> 'os"
  file_close :: "'os \<Rightarrow> string \<Rightarrow> error option \<times> 'os"
  feather_write_dataframe :: "'os \<Rightarrow> table \<Rightarrow> string \<Rightarrow> error option \<times> 'os"

text \<open>\<^verbatim>\<open>requests.post\<close> and \<^verbatim>\<open>requests.get\<close>: the request enters the trace, answered or not.\<close>

definition requests_post ::
  "'os env \<Rightarrow> 'os world \<Rightarrow> string \<Rightarrow> (string \<times> pyval) list \<Rightarrow> headers
     \<Rightarrow> (error + response) \<times> 'os world" where
  "requests_post env w url form_fields hs =
     (http_post env w url form_fields hs, w\<lparr>trace := trace w @ [POST url form_fields hs]\<rparr>)"

definition requests_get ::
  "'os env \<Rightarrow> 'os world \<Rightarrow> string \<Rightarrow> headers \<Rightarrow> (error + response) \<times> 'os world" where
  "requests_get env w url hs =
     (http_get env w url hs, w\<lparr>trace := trace w @ [GET url hs]\<rparr>)"

text \<open>
  \<^verbatim>\<open>Response.raise_for_status\<close> raises \<^verbatim>\<open>HTTPError\<close> for a status from 400 to 599, and
  \<^verbatim>\<open>Response.ok\<close> is true when \<^verbatim>\<open>raise_for_status\<close> does not raise.
\<close>

definition raise_for_status :: "response \<Rightarrow> error + unit" where
  "raise_for_status r =
     (if 400 \<le> status_code r \<and> status_code r < 600 then Inl (HTTPError (status_code r))
      else Inr ())"

definition ok :: "response \<Rightarrow> bool" where
  "ok r = (case raise_for_status r of Inl e \<Rightarrow> False | Inr u \<Rightarrow> True)"

text \<open>\<^verbatim>\<open>Response.json()\<close> and \<^verbatim>\<open>json.loads\<close>: \<^verbatim>\<open>ValueError\<close> on a malformed document.\<close>

definition loads :: "'os env \<Rightarrow> string \<Rightarrow> error + pyval" where
  "loads env s =
     (case json_loads env s of
        None \<Rightarrow> Inl (ValueError ''No JSON object could be decoded'')
      | Some j \<Rightarrow> Inr j)"

text \<open>\<^verbatim>\<open>obj[k1][k2]\<close>.\<close>

definition getitem2 :: "pyval \<Rightarrow> string \<Rightarrow> string \<Rightarrow> error + pyval" where
  "getitem2 v k1 k2 = (case getitem v k1 of Inl e \<Rightarrow> Inl e | Inr u \<Rightarrow> getitem u k2)"

text \<open>
  \<^verbatim>\<open>time.sleep\<close>: a negative argument raises in Python 2. The argument is a number of
  seconds, whatever the name of the variable that the module passes; the world sums the
  arguments up as they are.
\<close>

definition time_sleep :: "int \<Rightarrow> 'os world \<Rightarrow> (error + unit) \<times> 'os world" where
  "time_sleep s w =
     (if s < 0 then (Inl (IOError ''[Errno 22] Invalid argument''), w)
      else (Inr (), w\<lparr>slept := slept w + s\<rparr>))"

definition print_line :: "string \<Rightarrow> 'os world \<Rightarrow> 'os world" where
  "print_line s w = w\<lparr>printed := printed w @ [s]\<rparr>"

text \<open>\<^verbatim>\<open>str.lower\<close> on ASCII letters.\<close>

definition lower_char :: "char \<Rightarrow> char" where
  "lower_char c =
     (case map_of (zip ''ABCDEFGHIJKLMNOPQRSTUVWXYZ'' ''abcdefghijklmnopqrstuvwxyz'') c of
        None \<Rightarrow> c
      | Some d \<Rightarrow> d)"

definition lower :: "string \<Rightarrow> string" where
  "lower s = map lower_char s"

section \<open>The tabular materializer\<close>

text \<open>
  pandas infers a type for every column it builds. A column whose cells are all numbers
  or null is stored as a numeric array: null stays null, and a number becomes the number
  that the array holds (itself in an integer column, the nearest \<^verbatim>\<open>float64\<close> in a
  column with a null or a float), which is the parameter \<open>pd_number\<close>. Every other
  column keeps its objects as they are.
\<close>

fun is_number_or_null :: "pyval \<Rightarrow> bool" where
  "is_number_or_null (PNum q) = True"
| "is_number_or_null PNone = True"
| "is_number_or_null _ = False"

definition convert_cell :: "'os env \<Rightarrow> pyval list \<Rightarrow> pyval \<Rightarrow> pyval" where
  "convert_cell env col x =
     (if list_all is_number_or_null col then
        (case x of PNum q \<Rightarrow> PNum (pd_number env col q) | _ \<Rightarrow> x)
      else x)"

text \<open>
  \<^verbatim>\<open>pd.DataFrame(records)\<close> for a list of dictionaries: one row per dictionary, the
  columns are the keys of all of them, sorted, and a cell whose key the dictionary lacks
  is null. What pandas makes of any other list is a parameter (\<open>pd_DataFrame_other\<close>).
\<close>

fun is_dict :: "pyval \<Rightarrow> bool" where
  "is_dict (PDict kvs) = True"
| "is_dict _ = False"

fun dict_items :: "pyval \<Rightarrow> (string \<times> pyval) list" where
  "dict_items (PDict kvs) = kvs"
| "dict_items _ = []"

definition record_cell :: "(string \<times> pyval) list \<Rightarrow> string \<Rightarrow> pyval" where
  "record_cell r c = (case map_of r c of None \<Rightarrow> PNone | Some v \<Rightarrow> v)"

definition DataFrame_of_records :: "'os env \<Rightarrow> (string \<times> pyval) list list \<Rightarrow> table" where
  "DataFrame_of_records env recs =
     (let cols = sort (remdups (concat (map (map fst) recs)))
      in \<lparr> columns = map LStr cols,
           rows = map (\<lambda>r. map (\<lambda>c. convert_cell env (map (\<lambda>r'. record_cell r' c) recs)
                                         (record_cell r c)) cols) recs \<rparr>)"

definition pd_DataFrame :: "'os env \<Rightarrow> pyval list \<Rightarrow> error + table" where
  "pd_DataFrame env xs =
     (if list_all is_dict xs then Inr (DataFrame_of_records env (map dict_items xs))
      else pd_DataFrame_other env xs)"

text \<open>
  \<^verbatim>\<open>pd.DataFrame(d.items())\<close>: for a list of pairs the columns are labelled 0 and 1 and
  each pair is a row, the keys in the first column and the values in the second; for the
  empty list pandas builds a frame with no column at all.
\<close>

definition DataFrame_of_items :: "'os env \<Rightarrow> (string \<times> pyval) list \<Rightarrow> table" where
  "DataFrame_of_items env kvs =
     (if kvs = [] then \<lparr> columns = [], rows = [] \<rparr>
      else \<lparr> columns = [LInt 0, LInt 1],
             rows = map (\<lambda>(k, v). [convert_cell env (map (\<lambda>(k', v'). PStr k') kvs) (PStr k),
                                      convert_cell env (map snd kvs) v]) kvs \<rparr>)"

text \<open>The argument of \<^verbatim>\<open>create_df_from_api_data\<close>: a Python object, or a data frame.\<close>

datatype payload = PyObj pyval | Frame table

text \<open>Lines 198 to 207: the \<^verbatim>\<open>isinstance\<close> chain that builds \<^verbatim>\<open>response_data_pd\<close>.\<close>

fun build_frame :: "'os env \<Rightarrow> payload \<Rightarrow> error + table" where
  "build_frame env (PyObj (PList xs)) = pd_DataFrame env xs"
| "build_frame env (PyObj (PDict kvs)) = Inr (DataFrame_of_items env kvs)"
| "build_frame env (Frame t) = Inr t"
| "build_frame env (PyObj v) =
     Inl (ValueError ''Need to add a new type of dataframe object value to the code.'')"

text \<open>
  \<^verbatim>\<open>s.replace('', r)\<close>: Python puts \<^verbatim>\<open>r\<close> before every character and at the end.
\<close>

definition replace_empty :: "string \<Rightarrow> string \<Rightarrow> string" where
  "replace_empty s r = concat (map (\<lambda>c. r @ [c]) s) @ r"

text \<open>Line 212: \<^verbatim>\<open>lambda x: x.replace('', ' ') if x == '' else x\<close>, and \<^verbatim>\<open>applymap\<close>.\<close>

definition sanitize_cell :: "pyval \<Rightarrow> pyval" where
  "sanitize_cell x =
     (if x = PStr [] then (case x of PStr s \<Rightarrow> PStr (replace_empty s '' '') | _ \<Rightarrow> x)
      else x)"

definition applymap :: "(pyval \<Rightarrow> pyval) \<Rightarrow> table \<Rightarrow> table" where
  "applymap f t = t\<lparr>rows := map (map f) (rows t)\<rparr>"

text \<open>\<^verbatim>\<open>Qualtrics.create_df_from_api_data\<close>, lines 191 to 214.\<close>

definition create_df_from_api_data :: "'os env \<Rightarrow> payload \<Rightarrow> error + table" where
  "create_df_from_api_data env json_data =
     (case build_frame env json_data of
        Inl e \<Rightarrow> Inl e
      | Inr response_data_pd \<Rightarrow> Inr (applymap sanitize_cell response_data_pd))"

section \<open>Output paths and the disk writer\<close>

text \<open>
  \<^verbatim>\<open>strftime("%Y%m%d")\<close> and \<^verbatim>\<open>strftime("%H%M%S")\<close> of a \<^verbatim>\<open>datetime\<close>. The clock gives
  years of four digits, months from 1 to 12 and so on, so every field has its fixed width.
\<close>

definition digit_char :: "nat \<Rightarrow> char" where
  "digit_char n = ''0123456789'' ! (n mod 10)"

definition dec2 :: "nat \<Rightarrow> string" where
  "dec2 n = [digit_char (n div 10), digit_char n]"

definition dec4 :: "nat \<Rightarrow> string" where
  "dec4 n = [digit_char (n div 1000), digit_char (n div 100), digit_char (n div 10), digit_char n]"

definition strftime_Ymd :: "datetime \<Rightarrow> string" where
  "strftime_Ymd d = dec4 (year d) @ dec2 (month d) @ dec2 (day d)"

definition strftime_HMS :: "datetime \<Rightarrow> string" where
  "strftime_HMS d = dec2 (hour d) @ dec2 (minute d) @ dec2 (second d)"

text \<open>
  \<^verbatim>\<open>Qualtrics.setup_output_filename\<close>, lines 244 to 267. The sub-folder is the base path
  followed at once by the project name; \<^verbatim>\<open>os.mkdir\<close> may raise.
\<close>

definition setup_output_filename ::
  "'os env \<Rightarrow> qualtrics \<Rightarrow> 'os world \<Rightarrow> string \<Rightarrow> string \<Rightarrow> string \<Rightarrow> string
     \<Rightarrow> (error + string) \<times> 'os world" where
  "setup_output_filename env self w base_path survey_name type extension =
     (let sub_folder = base_path @ project_name self in
      case (if \<not> os_path_exists env (os w) sub_folder then os_mkdir env (os w) sub_folder
            else (None, os w)) of
        (Some e, os1) \<Rightarrow> (Inl e, w\<lparr>os := os1\<rparr>)
      | (None, os1) \<Rightarrow>
          (let w1 = w\<lparr>os := os1\<rparr>;
               today =
                 (if \<not> use_timestamps self then strftime_Ymd (datetime_now env w1)
                  else (let now = datetime_now env w1
                        in strftime_Ymd now @ ''_'' @ strftime_HMS now));
               path = sub_folder @ ''/'' @ today @ ''_'' @ survey_name @ ''_'' @ type
                        @ ''.'' @ extension
           in (Inr path, w1)))"

text \<open>
  \<^verbatim>\<open>Qualtrics.write_json_to_disk\<close>, lines 168 to 189. The file is opened by the \<^verbatim>\<open>with\<close>
  statement, outside the \<^verbatim>\<open>try\<close>; the \<^verbatim>\<open>with\<close> statement closes it on the way out, also
  when the body raised, and an exception of the close replaces the one under way.
\<close>

definition write_json_to_disk ::
  "'os env \<Rightarrow> 'os world \<Rightarrow> pyval \<Rightarrow> string \<Rightarrow> (error + unit) \<times> 'os world" where
  "write_json_to_disk env w json_data full_file_path =
     (case file_open_w env (os w) full_file_path of
        (Some e, os1) \<Rightarrow> (Inl e, w\<lparr>os := os1\<rparr>)
      | (None, os1) \<Rightarrow>
          (case json_dump env os1 json_data full_file_path of
             (Some e, os2) \<Rightarrow>
               (case file_close env os2 full_file_path of
                  (Some e', os3) \<Rightarrow> (Inl e', w\<lparr>os := os3\<rparr>)
                | (None, os3) \<Rightarrow>
                    (Inl (ValueError (''Unable to write json output to disk at ''
                            @ os_path_abspath env os2 full_file_path)),
                     w\<lparr>os := os3\<rparr>))
           | (None, os2) \<Rightarrow>
               (let w2 = print_line (os_path_abspath env os2 full_file_path @ '' written to disk'')
                           (w\<lparr>os := os2\<rparr>)
                in case file_close env os2 full_file_path of
                     (Some e', os3) \<Rightarrow> (Inl e', w2\<lparr>os := os3\<rparr>)
                   | (None, os3) \<Rightarrow> (Inr (), w2\<lparr>os := os3\<rparr>))))"

text \<open>
  The check of the output directory that \<^verbatim>\<open>write_df_to_disk\<close> (lines 225 to 231) and
  \<^verbatim>\<open>get_survey\<close> (lines 151 to 157) both make: the path, with a slash appended when it
  does not end with \<^verbatim>\<open>os.path.sep\<close>.
\<close>

definition checked_output_dir :: "'os env \<Rightarrow> 'os world \<Rightarrow> pyval \<Rightarrow> error + string" where
  "checked_output_dir env w path_to_files =
     (case path_to_files of
        PStr p \<Rightarrow>
          if \<not> os_path_isdir_realpath env (os w) p then
            Inl (ValueError (''path_to_files argument is invalid.  Please check the supplied path, ''
                   @ ''where the outputfiles should be written to disk.''))
          else (case last_char p of
                  Inl e \<Rightarrow> Inl e
                | Inr c \<Rightarrow> if c \<noteq> os_path_sep env then Inr (p @ ''/'') else Inr p)
      | _ \<Rightarrow> Inl (ValueError ''path_to_files argument must be a string''))"

text \<open>\<^verbatim>\<open>Qualtrics.write_df_to_disk\<close>, lines 216 to 242.\<close>

definition write_df_to_disk ::
  "'os env \<Rightarrow> qualtrics \<Rightarrow> 'os world \<Rightarrow> table \<Rightarrow> string \<Rightarrow> string
     \<Rightarrow> (error + string) \<times> 'os world" where
  "write_df_to_disk env self w dataframe survey_name url_suffix =
     (case checked_output_dir env w (path_to_output_files self) of
        Inl e \<Rightarrow> (Inl e, w)
      | Inr path_to_files \<Rightarrow>
          (case setup_output_filename env self w path_to_files survey_name
                  (takeWhile (\<lambda>c. c \<noteq> CHR ''/'') url_suffix) ''feather'' of
             (Inl e, w1) \<Rightarrow> (Inl e, w1)
           | (Inr path, w1) \<Rightarrow>
               (case feather_write_dataframe env (os w1) dataframe path of
                  (Some e, os2) \<Rightarrow>
                    (Inl (ValueError ''Unable to write feather output to disk''), w1\<lparr>os := os2\<rparr>)
                | (None, os2) \<Rightarrow>
                    (Inr path,
                     print_line (os_path_abspath env os2 path @ '' written to disk'')
                       (w1\<lparr>os := os2\<rparr>)))))"

section \<open>The survey definition client\<close>

text \<open>
  \<^verbatim>\<open>Qualtrics.get_survey\<close>, lines 129 to 166. The method may change the object (it appends
  a slash to the stored output path), so the object is returned with the result.
\<close>

definition get_survey ::
  "'os env \<Rightarrow> qualtrics \<Rightarrow> 'os world \<Rightarrow> string \<Rightarrow> string \<Rightarrow> bool
     \<Rightarrow> (error + pyval) \<times> qualtrics \<times> 'os world" where
  "get_survey env self w survey_token survey_name write_to_disk =
     (let full_url = base_url self @ ''surveys/'' @ survey_token in
      case requests_get env w full_url (api_token_header self) of
        (Inl e, w1) \<Rightarrow> (Inl e, self, w1)
      | (Inr response_data, w1) \<Rightarrow>
          (case loads env (content response_data) of
             Inl e \<Rightarrow> (Inl e, self, w1)
           | Inr j \<Rightarrow>
               (case getitem j ''result'' of
                  Inl e \<Rightarrow> (Inl e, self, w1)
                | Inr response_data_json \<Rightarrow>
                    if write_to_disk then
                      (case checked_output_dir env w1 (path_to_output_files self) of
                         Inl e \<Rightarrow> (Inl e, self, w1)
                       | Inr p \<Rightarrow>
                           (let self1 = self\<lparr>path_to_output_files := PStr p\<rparr> in
                            case setup_output_filename env self1 w1 p survey_name
                                   ''survey'' ''json'' of
                              (Inl e, w2) \<Rightarrow> (Inl e, self1, w2)
                            | (Inr path, w2) \<Rightarrow>
                                (case write_json_to_disk env w2 response_data_json path of
                                   (Inl e, w3) \<Rightarrow> (Inl e, self1, w3)
                                 | (Inr u, w3) \<Rightarrow> (Inr response_data_json, self1, w3))))
                    else
                      (Inr response_data_json, self,
                       print_line (''Retrieved survey data for '' @ survey_name) w1))))"

section \<open>The export job client\<close>

text \<open>
  The polling loop of \<^verbatim>\<open>get_responseexports\<close>, lines 95 to 102. Its state is the
  counter, the last status document read (\<^verbatim>\<open>response_status_json\<close>, unbound before the
  first poll) and the world. The loop may run forever: then the value is \<open>None\<close>.
\<close>

partial_function (option) poll_loop ::
  "'os env \<Rightarrow> string \<Rightarrow> headers \<Rightarrow> int \<Rightarrow> int \<Rightarrow> int \<Rightarrow> pyval option \<Rightarrow> 'os world
     \<Rightarrow> ((error + pyval option) \<times> 'os world) option" where
  "poll_loop env export_status_url hs max_wait_ms sleep_ms sleep_counter_ms response_status_json w =
     (if sleep_counter_ms \<le> max_wait_ms then
        (case requests_get env w export_status_url hs of
           (Inl e, w1) \<Rightarrow> Some (Inl e, w1)
         | (Inr r, w1) \<Rightarrow>
             (case loads env (content r) of
                Inl e \<Rightarrow> Some (Inl e, w1)
              | Inr status \<Rightarrow>
                  (case getitem2 status ''result'' ''percentComplete'' of
                     Inl e \<Rightarrow> Some (Inl e, w1)
                   | Inr p \<Rightarrow>
                       if p = PNum 100 then Some (Inr (Some status), w1)
                       else
                         (case time_sleep sleep_ms w1 of
                            (Inl e, w2) \<Rightarrow> Some (Inl e, w2)
                          | (Inr u, w2) \<Rightarrow>
                              poll_loop env export_status_url hs max_wait_ms sleep_ms
                                (sleep_counter_ms + sleep_ms) (Some status) w2))))
      else Some (Inr response_status_json, w))"

text \<open>
  Lines 54 to 81: the form fields of the export request. The five filters are copied from
  the keyword arguments when given; the two flags have defaults.
\<close>

definition optional_field :: "(string \<times> pyval) list \<Rightarrow> string \<Rightarrow> (string \<times> pyval) list" where
  "optional_field kwargs k = (case map_of kwargs k of None \<Rightarrow> [] | Some v \<Rightarrow> [(k, v)])"

definition defaulted_field ::
  "(string \<times> pyval) list \<Rightarrow> string \<Rightarrow> pyval \<Rightarrow> (string \<times> pyval) list" where
  "defaulted_field kwargs k d = (case map_of kwargs k of None \<Rightarrow> [(k, d)] | Some v \<Rightarrow> [(k, v)])"

definition export_form_fields ::
  "string \<Rightarrow> string \<Rightarrow> (string \<times> pyval) list \<Rightarrow> (string \<times> pyval) list" where
  "export_form_fields survey_token result_format kwargs =
     [(''surveyId'', PStr survey_token), (''format'', PStr (lower result_format))]
     @ optional_field kwargs ''lastResponseId''
     @ optional_field kwargs ''startDate''
     @ optional_field kwargs ''endDate''
     @ optional_field kwargs ''limit''
     @ optional_field kwargs ''includedQuestionIds''
     @ defaulted_field kwargs ''useLabels'' (PBool True)
     @ defaulted_field kwargs ''useLocalTime'' (PBool False)"

text \<open>
  Lines 104 to 109: the download of the result file and the read of the archive entry
  that \<^verbatim>\<open>z.NameToInfo.keys()[0]\<close> names.
\<close>

definition download_archive_entry ::
  "'os env \<Rightarrow> headers \<Rightarrow> 'os world \<Rightarrow> pyval \<Rightarrow> (error + string) \<times> 'os world" where
  "download_archive_entry env hs w response_status_json =
     (case getitem2 response_status_json ''result'' ''file'' of
        Inl e \<Rightarrow> (Inl e, w)
      | Inr f \<Rightarrow>
          (case f of
             PStr file_url \<Rightarrow>
               (case requests_get env w file_url hs of
                  (Inl e, w1) \<Rightarrow> (Inl e, w1)
                | (Inr r, w1) \<Rightarrow>
                    (case zip_open env (content r) of
                       None \<Rightarrow> (Inl BadZipfile, w1)
                     | Some z \<Rightarrow>
                         (case NameToInfo_keys z of
                            [] \<Rightarrow> (Inl IndexError, w1)
                          | name # rest \<Rightarrow>
                              (case zread z name of
                                 None \<Rightarrow> (Inl BadZipfile, w1)
                               | Some response_data \<Rightarrow> (Inr response_data, w1)))))
           | _ \<Rightarrow> (Inl MissingSchema, w)))"

text \<open>
  Lines 114 to 127: the \<^verbatim>\<open>responses\<close> of the parsed entry, the optional write of the
  data frame, the optional call of \<^verbatim>\<open>get_survey\<close>, and the pair that is returned.
\<close>

definition finish_responseexports ::
  "'os env \<Rightarrow> qualtrics \<Rightarrow> 'os world \<Rightarrow> string \<Rightarrow> string \<Rightarrow> string \<Rightarrow> bool \<Rightarrow> bool \<Rightarrow> string
     \<Rightarrow> (error + pyval \<times> string) \<times> qualtrics \<times> 'os world" where
  "finish_responseexports env self w response_data survey_token survey_name write_to_disk
       get_survey_flag url_suffix =
     (case loads env response_data of
        Inl e \<Rightarrow> (Inl e, self, w)
      | Inr j \<Rightarrow>
          (case getitem j ''responses'' of
             Inl e \<Rightarrow> (Inl e, self, w)
           | Inr response_data_json \<Rightarrow>
               (case (if write_to_disk then
                        (case create_df_from_api_data env (PyObj response_data_json) of
                           Inl e \<Rightarrow> (Inl e, w)
                         | Inr dataframe \<Rightarrow>
                             write_df_to_disk env self w dataframe survey_name url_suffix)
                      else
                        (Inr '' '',
                         print_line (''Retrieved responseexports data for '' @ survey_name) w)) of
                  (Inl e, w1) \<Rightarrow> (Inl e, self, w1)
                | (Inr filename, w1) \<Rightarrow>
                    if get_survey_flag then
                      (case get_survey env self w1 survey_token survey_name write_to_disk of
                         (Inl e, self1, w2) \<Rightarrow> (Inl e, self1, w2)
                       | (Inr s, self1, w2) \<Rightarrow> (Inr (response_data_json, filename), self1, w2))
                    else (Inr (response_data_json, filename), self, w1))))"

text \<open>
  \<^verbatim>\<open>Qualtrics.get_responseexports\<close>, lines 37 to 127. The value is \<open>None\<close> when the
  polling loop never ends.
\<close>

definition get_responseexports ::
  "'os env \<Rightarrow> qualtrics \<Rightarrow> 'os world \<Rightarrow> string \<Rightarrow> string \<Rightarrow> bool \<Rightarrow> bool \<Rightarrow> string
     \<Rightarrow> int \<Rightarrow> int \<Rightarrow> (string \<times> pyval) list
     \<Rightarrow> ((error + pyval \<times> string) \<times> qualtrics \<times> 'os world) option" where
  "get_responseexports env self w survey_token survey_name write_to_disk get_survey_flag
       result_format max_wait_ms sleep_ms kwargs =
     (let url_suffix = ''responseexports'';
          form_fields = export_form_fields survey_token result_format kwargs;
          full_url = base_url self @ url_suffix
      in case requests_post env w full_url form_fields (api_token_header self) of
           (Inl e, w1) \<Rightarrow> Some (Inl e, self, w1)
         | (Inr export_response_handle, w1) \<Rightarrow>
             if ok export_response_handle then
               (let url_suffix1 =
                      (if last url_suffix \<noteq> CHR ''/'' then url_suffix @ ''/'' else url_suffix)
                in case loads env (content export_response_handle) of
                     Inl e \<Rightarrow> Some (Inl e, self, w1)
                   | Inr j \<Rightarrow>
                       (case getitem2 j ''result'' ''id'' of
                          Inl e \<Rightarrow> Some (Inl e, self, w1)
                        | Inr i \<Rightarrow>
                            (case i of
                               PStr job_id \<Rightarrow>
                                 (let export_status_url =
                                        base_url self @ lower url_suffix1 @ job_id
                                  in case poll_loop env export_status_url (api_token_header self)
                                            max_wait_ms sleep_ms 0 None w1 of
                                       None \<Rightarrow> None
                                     | Some (Inl e, w2) \<Rightarrow> Some (Inl e, self, w2)
                                     | Some (Inr None, w2) \<Rightarrow>
                                         Some (Inl (NameError ''response_status_json''), self, w2)
                                     | Some (Inr (Some response_status_json), w2) \<Rightarrow>
                                         (case download_archive_entry env (api_token_header self)
                                                 w2 response_status_json of
                                            (Inl e, w3) \<Rightarrow> Some (Inl e, self, w3)
                                          | (Inr response_data, w3) \<Rightarrow>
                                              Some (finish_responseexports env self w3
                                                      response_data survey_token survey_name
                                                      write_to_disk get_survey_flag url_suffix1)))
                             | _ \<Rightarrow> Some (Inl TypeError, self, w1))))
             else
               (case raise_for_status export_response_handle of
                  Inl e \<Rightarrow> Some (Inl e, self, w1)
                | Inr u \<Rightarrow> Some (Inl (NameError ''response_data''), self, w1)))"

section \<open>A sample server\<close>

text \<open>
  A concrete world to run the client in. The server accepts the export request with the
  given status; the job is complete from the poll on that finds the given number of
  requests already issued (never, for \<open>None\<close>), and until then the status document is
  the one named. Documents are named by their content; the parser maps each name to its
  value. The result archive has one entry. The path separator is the slash, and numbers
  are stored as they are (the sample has none that a \<^verbatim>\<open>float64\<close> would round).
\<close>

definition demo_self :: qualtrics where
  "demo_self =
     \<lparr> api_token_header = [(''x-api-token'', ''tok''), (''Content-Type'', ''application/json'')],
       project_name = ''proj'',
       base_url = ''https://q.example/API/v3/'',
       path_to_output_files = PStr ''out'',
       use_timestamps = False \<rparr>"

definition demo_world :: "unit world" where
  "demo_world = \<lparr> trace = [], slept = 0, printed = [], os = () \<rparr>"

definition demo_records :: pyval where
  "demo_records =
     PList [PDict [(''q1'', PStr ''a'')],
            PDict [(''q1'', PStr ''b''), (''q2'', PStr [])],
            PDict [(''q2'', PStr ''c'')]]"

definition demo_documents :: "string \<Rightarrow> pyval option" where
  "demo_documents =
     map_of
       [(''SUBMITTED'', PDict [(''result'', PDict [(''id'', PStr ''ES_1'')])]),
        (''PENDING'', PDict [(''result'', PDict [(''percentComplete'', PNum 50)])]),
        (''STUCK'',
           PDict [(''result'', PDict [(''percentComplete'', PNum 50),
                                      (''file'', PStr ''https://q.example/file/ES_1'')])]),
        (''COMPLETE'',
           PDict [(''result'', PDict [(''percentComplete'', PNum 100),
                                      (''file'', PStr ''https://q.example/file/ES_1'')])]),
        (''EXPORT'', PDict [(''responses'', demo_records)]),
        (''SURVEY'', PDict [(''result'', PDict [(''name'', PStr ''Survey 1'')])])]"

definition demo_archive :: "string \<Rightarrow> zipfile option" where
  "demo_archive s =
     (if s = ''ARCHIVE'' then
        Some \<lparr> NameToInfo_keys = [''Survey 1.json''],
               zread = map_of [(''Survey 1.json'', ''EXPORT'')] \<rparr>
      else None)"

definition demo_get ::
  "nat option \<Rightarrow> string \<Rightarrow> unit world \<Rightarrow> string \<Rightarrow> headers \<Rightarrow> error + response" where
  "demo_get complete_at pending w url hs =
     (if url = ''https://q.example/API/v3/responseexports/ES_1'' then
        Inr \<lparr> status_code = 200,
              content = (case complete_at of
                           None \<Rightarrow> pending
                         | Some n \<Rightarrow> if n \<le> length (trace w) then ''COMPLETE'' else pending) \<rparr>
      else if url = ''https://q.example/file/ES_1'' then
        Inr \<lparr> status_code = 200, content = ''ARCHIVE'' \<rparr>
      else if url = ''https://q.example/API/v3/surveys/SV_1'' then
        Inr \<lparr> status_code = 200, content = ''SURVEY'' \<rparr>
      else Inr \<lparr> status_code = 404, content = [] \<rparr>)"

definition demo_env :: "nat \<Rightarrow> nat option \<Rightarrow> string \<Rightarrow> unit env" where
  "demo_env post_status complete_at pending =
     \<lparr> http_post = (\<lambda>w url form_fields hs.
                      Inr \<lparr> status_code = post_status, content = ''SUBMITTED'' \<rparr>),
       http_get = demo_get complete_at pending,
       json_loads = demo_documents,
       zip_open = demo_archive,
       pd_DataFrame_other = (\<lambda>xs. Inr \<lparr> columns = [LInt 0], rows = map (\<lambda>x. [x]) xs \<rparr>),
       pd_number = (\<lambda>col q. q),
       datetime_now = (\<lambda>w. \<lparr> year = 2016, month = 11, day = 4,
                                hour = 9, minute = 5, second = 7 \<rparr>),
       os_path_exists = (\<lambda>s p. True),
       os_path_isdir_realpath = (\<lambda>s p. True),
       os_path_abspath = (\<lambda>s p. ''/home/user/'' @ p),
       os_path_sep = CHR ''/'',
       os_mkdir = (\<lambda>s p. (None, s)),
       file_open_w = (\<lambda>s p. (None, s)),
       json_dump = (\<lambda>s d p. (None, s)),
       file_close = (\<lambda>s p. (None, s)),
       feather_write_dataframe = (\<lambda>s t p. (None, s)) \<rparr>"

text \<open>The same world with a disk on which no file can be opened for writing.\<close>

definition unwritable :: "unit env \<Rightarrow> unit env" where
  "unwritable env =
     env\<lparr>file_open_w := (\<lambda>s p. (Some (IOError ''[Errno 2] No such file or directory''), s))\<rparr>"

text \<open>The same world with no sub-folder and a disk on which none can be created.\<close>

definition unmakable :: "unit env \<Rightarrow> unit env" where
  "unmakable env =
     env\<lparr>os_path_exists := (\<lambda>s p. False),
         os_mkdir := (\<lambda>s p. (Some (OSError ''[Errno 13] Permission denied''), s))\<rparr>"

section \<open>Predicates of the statements\<close>



definition is_digit :: "char \<Rightarrow> bool" where
  "is_digit c = (c \<in> set ''0123456789'')"

text \<open>
  The world in which the loop issues its status request number \<open>i\<close> (counted from 0):
  \<open>i\<close> status requests and \<open>i\<close> sleeps after the world in which the loop started.
\<close>

definition poll_world :: "'os world \<Rightarrow> string \<Rightarrow> headers \<Rightarrow> int \<Rightarrow> nat \<Rightarrow> 'os world" where
  "poll_world w url hs sleep_ms i =
     w\<lparr>trace := trace w @ replicate i (GET url hs), slept := slept w + int i * sleep_ms\<rparr>"

section \<open>Construction of the client\<close>

lemmas demo_defs =
  demo_env_def demo_get_def demo_world_def demo_self_def demo_documents_def demo_archive_def

text \<open>
  Claim C10. The constructor needs a non-empty base URL: for every non-empty base URL it
  yields a client whose base URL ends with a slash (the given URL, with a slash appended
  when it had none), and for the empty base URL it fails with \<^verbatim>\<open>IndexError\<close> and yields
  no client.
\<close>

theorem Qualtrics_init_base_url:
  "(url \<noteq> [] \<longrightarrow>
      (\<exists>q. Qualtrics_init tok proj url path ct ts = Inr q
           \<and> base_url q \<noteq> [] \<and> last (base_url q) = CHR ''/''
           \<and> base_url q = (if last url = CHR ''/'' then url else url @ ''/'')))
   \<and> Qualtrics_init tok proj [] path ct ts = Inl IndexError"
  by (simp add: Qualtrics_init_def last_char_def Let_def)

theorem Qualtrics_init_base_url_witness:
  "''https://x.qualtrics.com/API/v3'' \<noteq> []
   \<and> (\<exists>q. Qualtrics_init ''tok'' ''proj'' ''https://x.qualtrics.com/API/v3''
              (PStr ''../data_out'') ''json'' False = Inr q
          \<and> base_url q = ''https://x.qualtrics.com/API/v3/'')"
  using Qualtrics_init_base_url [of "''https://x.qualtrics.com/API/v3''" "''tok''" "''proj''"
      "PStr ''../data_out''" "''json''" False]
  by auto

section \<open>A rejected submission\<close>

lemma ok_status: "ok r = (\<not> (400 \<le> status_code r \<and> status_code r < 600))"
  by (simp add: ok_def raise_for_status_def)

text \<open>
  Claim C2, as amended. When the server answers the export request with an error status,
  from 400 to 599, \<^verbatim>\<open>get_responseexports\<close> raises the \<^verbatim>\<open>HTTPError\<close> of
  \<^verbatim>\<open>raise_for_status\<close>, which carries that status, and the only request issued is the
  submission itself: no \<^verbatim>\<open>GET\<close> goes out.
\<close>

theorem failed_submission_raises:
  assumes "http_post env w (base_url self @ ''responseexports'')
             (export_form_fields tok fmt kwargs) (api_token_header self) = Inr r"
      and "400 \<le> status_code r" and "status_code r < 600"
  shows "get_responseexports env self w tok name wtd gs fmt max_wait sleep kwargs =
           Some (Inl (HTTPError (status_code r)), self,
                 w\<lparr>trace := trace w @ [POST (base_url self @ ''responseexports'')
                                          (export_form_fields tok fmt kwargs)
                                          (api_token_header self)]\<rparr>)"
  using assms
  by (simp add: get_responseexports_def requests_post_def ok_def raise_for_status_def Let_def)

theorem failed_submission_raises_witness:
  "get_responseexports (demo_env 401 (Some 2) ''PENDING'') demo_self demo_world
       ''SV_1'' ''Survey 1'' True True ''json'' 20000 1 []
     = Some (Inl (HTTPError 401), demo_self,
             demo_world\<lparr>trace := trace demo_world @
                [POST (base_url demo_self @ ''responseexports'')
                   (export_form_fields ''SV_1'' ''json'' []) (api_token_header demo_self)]\<rparr>)"
proof -
  let ?r = "\<lparr> status_code = 401, content = ''SUBMITTED'' \<rparr>"
  have h1: "http_post (demo_env 401 (Some 2) ''PENDING'') demo_world
              (base_url demo_self @ ''responseexports'')
              (export_form_fields ''SV_1'' ''json'' []) (api_token_header demo_self) = Inr ?r"
    by (simp add: demo_env_def)
  have h2: "400 \<le> status_code ?r" and h3: "status_code ?r < 600"
    by simp_all
  from failed_submission_raises [OF h1 h2 h3, of "''Survey 1''" True True 20000 1]
  show ?thesis by simp
qed

text \<open>
  Claim C2 as it was stated fails for a status that is no success and no error: the
  submission is answered with 304, \<^verbatim>\<open>Response.ok\<close> is true, and the client polls twice,
  downloads the file and returns the records. No error is raised.
\<close>

theorem submission_304_is_polled:
  "get_responseexports (demo_env 304 (Some 2) ''PENDING'') demo_self demo_world
       ''SV_1'' ''Survey 1'' False False ''json'' 20000 1 []
     = Some (Inr (demo_records, '' ''), demo_self,
             \<lparr> trace =
                 [POST ''https://q.example/API/v3/responseexports''
                    [(''surveyId'', PStr ''SV_1''), (''format'', PStr ''json''),
                     (''useLabels'', PBool True), (''useLocalTime'', PBool False)]
                    (api_token_header demo_self),
                  GET ''https://q.example/API/v3/responseexports/ES_1'' (api_token_header demo_self),
                  GET ''https://q.example/API/v3/responseexports/ES_1'' (api_token_header demo_self),
                  GET ''https://q.example/file/ES_1'' (api_token_header demo_self)],
               slept = 1,
               printed = [''Retrieved responseexports data for Survey 1''],
               os = () \<rparr>)"
  by (simp add: get_responseexports_def poll_loop.simps demo_defs requests_post_def
        requests_get_def loads_def getitem2_def time_sleep_def ok_def raise_for_status_def
        Let_def download_archive_entry_def finish_responseexports_def print_line_def
        export_form_fields_def optional_field_def defaulted_field_def lower_def lower_char_def)

section \<open>The survey definition\<close>

lemma trace_setup_output_filename:
  "setup_output_filename env self w b s t e = (r, w') \<Longrightarrow>
     trace w' = trace w \<and> slept w' = slept w"
  by (auto simp add: setup_output_filename_def Let_def split: prod.splits option.splits if_splits)

lemma trace_write_json_to_disk:
  "write_json_to_disk env w d p = (r, w') \<Longrightarrow> trace w' = trace w \<and> slept w' = slept w"
  by (auto simp add: write_json_to_disk_def Let_def print_line_def
        split: prod.splits option.splits)

lemma get_survey_trace:
  "get_survey env self w tok name wtd = (r, self', w') \<Longrightarrow>
     trace w' = trace w @ [GET (base_url self @ ''surveys/'' @ tok) (api_token_header self)]
     \<and> slept w' = slept w"
  by (auto simp add: get_survey_def Let_def requests_get_def print_line_def
        split: sum.splits prod.splits if_splits
        dest!: trace_setup_output_filename trace_write_json_to_disk)

lemma get_survey_result:
  "get_survey env self w tok name wtd = (Inr v, self', w') \<Longrightarrow>
     \<exists>resp j. http_get env w (base_url self @ ''surveys/'' @ tok) (api_token_header self) = Inr resp
        \<and> json_loads env (content resp) = Some j \<and> getitem j ''result'' = Inr v"
  by (auto simp add: get_survey_def Let_def requests_get_def loads_def
        split: sum.splits prod.splits if_splits option.splits)

lemma get_survey_returns:
  "http_get env w (base_url self @ ''surveys/'' @ tok) (api_token_header self) = Inr resp \<Longrightarrow>
   json_loads env (content resp) = Some j \<Longrightarrow> getitem j ''result'' = Inr v \<Longrightarrow>
   fst (get_survey env self w tok name False) = Inr v"
  by (auto simp add: get_survey_def Let_def requests_get_def loads_def
        split: sum.splits prod.splits if_splits option.splits)

lemma get_survey_written:
  fixes env :: "'a env"
  assumes "http_get env w (base_url self @ ''surveys/'' @ tok) (api_token_header self) = Inr resp"
      and "json_loads env (content resp) = Some j"
      and "getitem j ''result'' = Inr v"
      and "path_to_output_files self = PStr p"
      and "p \<noteq> []"
      and "os_path_isdir_realpath env (os w) p"
      and "dir = (if last p = os_path_sep env then p else p @ ''/'')"
      and "os_path_exists env (os w) (dir @ project_name self) \<and> os1 = os w
           \<or> \<not> os_path_exists env (os w) (dir @ project_name self)
             \<and> os_mkdir env (os w) (dir @ project_name self) = (None, os1)"
      and "w1 = w\<lparr>trace := trace w @ [GET (base_url self @ ''surveys/'' @ tok)
                                         (api_token_header self)],
                    os := os1\<rparr>"
      and "path = dir @ project_name self @ ''/''
                    @ (if use_timestamps self
                       then strftime_Ymd (datetime_now env w1) @ ''_''
                              @ strftime_HMS (datetime_now env w1)
                       else strftime_Ymd (datetime_now env w1))
                    @ ''_'' @ name @ ''_'' @ ''survey'' @ ''.'' @ ''json''"
      and "file_open_w env os1 path = (None, os2)"
      and "json_dump env os2 v path = (None, os3)"
      and "file_close env os3 path = (None, os4)"
  shows "get_survey env self w tok name True
           = (Inr v, self\<lparr>path_to_output_files := PStr dir\<rparr>,
              w1\<lparr>printed := printed w @ [os_path_abspath env os3 path @ '' written to disk''],
                 os := os4\<rparr>)"
proof -
  let ?get = "GET (base_url self @ ''surveys/'' @ tok) (api_token_header self)"
  let ?w0 = "w\<lparr>trace := trace w @ [?get]\<rparr>"
  let ?self1 = "self\<lparr>path_to_output_files := PStr dir\<rparr>"
  have cd: "checked_output_dir env ?w0 (path_to_output_files self) = Inr dir"
    using assms(4-7) by (simp add: checked_output_dir_def last_char_def)
  have su: "setup_output_filename env ?self1 ?w0 dir name ''survey'' ''json'' = (Inr path, w1)"
    using assms(8) unfolding assms(9) assms(10)
    by (auto simp add: setup_output_filename_def Let_def)
  have os1: "os w1 = os1" and pr: "printed w1 = printed w"
    by (simp_all add: assms(9))
  have wj: "write_json_to_disk env w1 v path
              = (Inr (), w1\<lparr>printed := printed w @ [os_path_abspath env os3 path @ '' written to disk''],
                           os := os4\<rparr>)"
    using assms(11-13)
    by (simp add: write_json_to_disk_def print_line_def Let_def os1 pr)
  show ?thesis
    using assms(1-3) cd su wj
    by (simp add: get_survey_def requests_get_def loads_def Let_def)
qed

text \<open>
  Claim C7. \<^verbatim>\<open>get_survey\<close> issues exactly one request, a \<^verbatim>\<open>GET\<close> to the base URL
  followed by \<^verbatim>\<open>surveys/\<close> and the survey token, whatever happens afterwards; it never
  sleeps, so it neither polls nor retries; and what it returns is the \<^verbatim>\<open>result\<close> field
  of the JSON document parsed from the response body. It returns that field when the body
  is such a document and nothing is to be written to disk; and also when the survey is to
  be written, the output directory is a directory, its sub-folder exists or is created,
  and the file is opened, written and closed without an error.
\<close>

theorem get_survey_single_request:
  fixes env :: "'a env"
  shows
  "trace (snd (snd (get_survey env self w tok name wtd)))
     = trace w @ [GET (base_url self @ ''surveys/'' @ tok) (api_token_header self)]
   \<and> slept (snd (snd (get_survey env self w tok name wtd))) = slept w
   \<and> (\<forall>v. fst (get_survey env self w tok name wtd) = Inr v \<longrightarrow>
         (\<exists>resp j. http_get env w (base_url self @ ''surveys/'' @ tok) (api_token_header self)
                     = Inr resp
                 \<and> json_loads env (content resp) = Some j \<and> getitem j ''result'' = Inr v))
   \<and> (\<forall>resp j v.
         http_get env w (base_url self @ ''surveys/'' @ tok) (api_token_header self) = Inr resp
         \<and> json_loads env (content resp) = Some j \<and> getitem j ''result'' = Inr v \<longrightarrow>
         fst (get_survey env self w tok name False) = Inr v)
   \<and> (\<forall>resp j v p dir os1 w1 path os2 os3 os4.
         http_get env w (base_url self @ ''surveys/'' @ tok) (api_token_header self) = Inr resp
         \<and> json_loads env (content resp) = Some j \<and> getitem j ''result'' = Inr v
         \<and> path_to_output_files self = PStr p \<and> p \<noteq> []
         \<and> os_path_isdir_realpath env (os w) p
         \<and> dir = (if last p = os_path_sep env then p else p @ ''/'')
         \<and> (os_path_exists env (os w) (dir @ project_name self) \<and> os1 = os w
              \<or> \<not> os_path_exists env (os w) (dir @ project_name self)
                \<and> os_mkdir env (os w) (dir @ project_name self) = (None, os1))
         \<and> w1 = w\<lparr>trace := trace w @ [GET (base_url self @ ''surveys/'' @ tok)
                                            (api_token_header self)],
                       os := os1\<rparr>
         \<and> path = dir @ project_name self @ ''/''
                       @ (if use_timestamps self
                          then strftime_Ymd (datetime_now env w1) @ ''_''
                                 @ strftime_HMS (datetime_now env w1)
                          else strftime_Ymd (datetime_now env w1))
                       @ ''_'' @ name @ ''_'' @ ''survey'' @ ''.'' @ ''json''
         \<and> file_open_w env os1 path = (None, os2)
         \<and> json_dump env os2 v path = (None, os3)
         \<and> file_close env os3 path = (None, os4) \<longrightarrow>
         get_survey env self w tok name True
           = (Inr v, self\<lparr>path_to_output_files := PStr dir\<rparr>,
              w1\<lparr>printed := printed w @ [os_path_abspath env os3 path @ '' written to disk''],
                 os := os4\<rparr>))"
proof -
  obtain r self' w' where e: "get_survey env self w tok name wtd = (r, self', w')"
    by (cases "get_survey env self w tok name wtd") auto
  from get_survey_trace [OF e] have one:
    "trace (snd (snd (get_survey env self w tok name wtd)))
       = trace w @ [GET (base_url self @ ''surveys/'' @ tok) (api_token_header self)]"
    and quiet: "slept (snd (snd (get_survey env self w tok name wtd))) = slept w"
    by (simp_all add: e)
  have result: "\<forall>v. fst (get_survey env self w tok name wtd) = Inr v \<longrightarrow>
         (\<exists>resp j. http_get env w (base_url self @ ''surveys/'' @ tok) (api_token_header self)
                     = Inr resp
                 \<and> json_loads env (content resp) = Some j \<and> getitem j ''result'' = Inr v)"
    using get_survey_result [of env self w tok name wtd _ self' w'] e by simp
  have plain: "\<forall>resp j v.
         http_get env w (base_url self @ ''surveys/'' @ tok) (api_token_header self) = Inr resp
         \<and> json_loads env (content resp) = Some j \<and> getitem j ''result'' = Inr v \<longrightarrow>
         fst (get_survey env self w tok name False) = Inr v"
    using get_survey_returns by blast
  have written: "(\<forall>resp j v p dir os1 w1 path os2 os3 os4.
         http_get env w (base_url self @ ''surveys/'' @ tok) (api_token_header self) = Inr resp
         \<and> json_loads env (content resp) = Some j \<and> getitem j ''result'' = Inr v
         \<and> path_to_output_files self = PStr p \<and> p \<noteq> []
         \<and> os_path_isdir_realpath env (os w) p
         \<and> dir = (if last p = os_path_sep env then p else p @ ''/'')
         \<and> (os_path_exists env (os w) (dir @ project_name self) \<and> os1 = os w
              \<or> \<not> os_path_exists env (os w) (dir @ project_name self)
                \<and> os_mkdir env (os w) (dir @ project_name self) = (None, os1))
         \<and> w1 = w\<lparr>trace := trace w @ [GET (base_url self @ ''surveys/'' @ tok)
                                            (api_token_header self)],
                       os := os1\<rparr>
         \<and> path = dir @ project_name self @ ''/''
                       @ (if use_timestamps self
                          then strftime_Ymd (datetime_now env w1) @ ''_''
                                 @ strftime_HMS (datetime_now env w1)
                          else strftime_Ymd (datetime_now env w1))
                       @ ''_'' @ name @ ''_'' @ ''survey'' @ ''.'' @ ''json''
         \<and> file_open_w env os1 path = (None, os2)
         \<and> json_dump env os2 v path = (None, os3)
         \<and> file_close env os3 path = (None, os4) \<longrightarrow>
         get_survey env self w tok name True
           = (Inr v, self\<lparr>path_to_output_files := PStr dir\<rparr>,
              w1\<lparr>printed := printed w @ [os_path_abspath env os3 path @ '' written to disk''],
                 os := os4\<rparr>))"
  proof (intro allI impI, elim conjE)
    fix resp j v p dir os1 w1 path os2 os3 os4
    assume "http_get env w (base_url self @ ''surveys/'' @ tok) (api_token_header self) = Inr resp"
      "json_loads env (content resp) = Some j" "getitem j ''result'' = Inr v"
      "path_to_output_files self = PStr p" "p \<noteq> []"
      "os_path_isdir_realpath env (os w) p"
      "dir = (if last p = os_path_sep env then p else p @ ''/'')"
      "os_path_exists env (os w) (dir @ project_name self) \<and> os1 = os w
         \<or> \<not> os_path_exists env (os w) (dir @ project_name self)
           \<and> os_mkdir env (os w) (dir @ project_name self) = (None, os1)"
      "w1 = w\<lparr>trace := trace w @ [GET (base_url self @ ''surveys/'' @ tok)
                                      (api_token_header self)],
                 os := os1\<rparr>"
      "path = dir @ project_name self @ ''/''
                @ (if use_timestamps self
                   then strftime_Ymd (datetime_now env w1) @ ''_''
                          @ strftime_HMS (datetime_now env w1)
                   else strftime_Ymd (datetime_now env w1))
                @ ''_'' @ name @ ''_'' @ ''survey'' @ ''.'' @ ''json''"
      "file_open_w env os1 path = (None, os2)"
      "json_dump env os2 v path = (None, os3)"
      "file_close env os3 path = (None, os4)"
    then show "get_survey env self w tok name True
           = (Inr v, self\<lparr>path_to_output_files := PStr dir\<rparr>,
              w1\<lparr>printed := printed w @ [os_path_abspath env os3 path @ '' written to disk''],
                 os := os4\<rparr>)"
      by (rule get_survey_written)
  qed
  from one quiet result plain written show ?thesis
    by (intro conjI)
qed

theorem get_survey_single_request_witness:
  "fst (get_survey (demo_env 200 None ''PENDING'') demo_self demo_world
          ''SV_1'' ''Survey 1'' False)
     = Inr (PDict [(''name'', PStr ''Survey 1'')])
   \<and> trace (snd (snd (get_survey (demo_env 200 None ''PENDING'') demo_self demo_world
                         ''SV_1'' ''Survey 1'' False)))
     = [GET ''https://q.example/API/v3/surveys/SV_1'' (api_token_header demo_self)]
   \<and> get_survey (demo_env 200 None ''PENDING'') demo_self demo_world
          ''SV_1'' ''Survey 1'' True
     = (Inr (PDict [(''name'', PStr ''Survey 1'')]),
        demo_self\<lparr>path_to_output_files := PStr ''out/''\<rparr>,
        \<lparr> trace = [GET ''https://q.example/API/v3/surveys/SV_1'' (api_token_header demo_self)],
          slept = 0,
          printed = [''/home/user/out/proj/20161104_Survey 1_survey.json written to disk''],
          os = () \<rparr>)"
proof -
  let ?env = "demo_env 200 None ''PENDING''"
  let ?resp = "\<lparr> status_code = 200, content = ''SURVEY'' \<rparr>"
  let ?j = "PDict [(''result'', PDict [(''name'', PStr ''Survey 1'')])]"
  let ?v = "PDict [(''name'', PStr ''Survey 1'')]"
  let ?w1 = "demo_world\<lparr>trace := trace demo_world
                           @ [GET (base_url demo_self @ ''surveys/'' @ ''SV_1'')
                                (api_token_header demo_self)],
                         os := ()\<rparr>"
  have h1: "http_get ?env demo_world (base_url demo_self @ ''surveys/'' @ ''SV_1'')
              (api_token_header demo_self) = Inr ?resp"
    by (simp add: demo_env_def demo_get_def demo_self_def)
  have h2: "json_loads ?env (content ?resp) = Some ?j"
    by (simp add: demo_env_def demo_documents_def)
  have h3: "getitem ?j ''result'' = Inr ?v"
    by simp
  have h4: "trace demo_world = []" "base_url demo_self = ''https://q.example/API/v3/''"
    by (simp_all add: demo_world_def demo_self_def)
  note inst = get_survey_single_request [of ?env demo_self demo_world "''SV_1''" "''Survey 1''" False]
  note a = inst [THEN conjunct1]
  note b = inst [THEN conjunct2, THEN conjunct2, THEN conjunct2, THEN conjunct1, rule_format,
                 OF conjI [OF h1 conjI [OF h2 h3]]]
  note c = inst [THEN conjunct2, THEN conjunct2, THEN conjunct2, THEN conjunct2, rule_format,
                 of ?resp ?j ?v "''out''" "''out/''" "()" ?w1
                    "''out/proj/20161104_Survey 1_survey.json''" "()" "()" "()"]
  have written: "get_survey ?env demo_self demo_world ''SV_1'' ''Survey 1'' True
     = (Inr ?v, demo_self\<lparr>path_to_output_files := PStr ''out/''\<rparr>,
        \<lparr> trace = [GET ''https://q.example/API/v3/surveys/SV_1'' (api_token_header demo_self)],
          slept = 0,
          printed = [''/home/user/out/proj/20161104_Survey 1_survey.json written to disk''],
          os = () \<rparr>)"
    using c h1 h2 h3
    by (simp add: demo_env_def demo_world_def demo_self_def strftime_Ymd_def dec2_def dec4_def
          digit_char_def)
  show ?thesis
    unfolding a b h4 written by simp
qed

section \<open>The table built from a payload\<close>

lemma sanitize_cell_empty: "sanitize_cell (PStr []) = PStr '' ''"
  by (simp add: sanitize_cell_def replace_empty_def)

lemma sanitize_cell_other: "x \<noteq> PStr [] \<Longrightarrow> sanitize_cell x = x"
  by (simp add: sanitize_cell_def)

lemma sanitize_cell_not_empty: "sanitize_cell x \<noteq> PStr []"
  by (cases "x = PStr []") (simp_all add: sanitize_cell_empty sanitize_cell_other)

lemma sanitize_cell_twice: "sanitize_cell (sanitize_cell x) = sanitize_cell x"
  by (cases "x = PStr []") (simp_all add: sanitize_cell_empty sanitize_cell_other)

lemma applymap_sanitize_twice:
  "applymap sanitize_cell (applymap sanitize_cell t) = applymap sanitize_cell t"
  by (simp add: applymap_def sanitize_cell_twice o_def)

lemma demo_records_table:
  "create_df_from_api_data env (PyObj demo_records)
     = Inr \<lparr>columns = [LStr ''q1'', LStr ''q2''],
            rows = [[PStr ''a'', PNone], [PStr ''b'', PStr '' ''], [PNone, PStr ''c'']]\<rparr>"
proof -
  have "sort (remdups [''q1'', ''q1'', ''q2'', ''q2'']) = [''q1'', ''q2'']"
    by code_simp
  then show ?thesis
    by (simp add: create_df_from_api_data_def demo_records_def pd_DataFrame_def
          DataFrame_of_records_def record_cell_def convert_cell_def applymap_def
          sanitize_cell_def replace_empty_def)
qed

text \<open>
  Claim C4. For every payload that \<^verbatim>\<open>create_df_from_api_data\<close> accepts, the returned
  table is the table built from the payload with every empty-string cell replaced by the
  one-space string and every other cell kept; no cell of the returned table is the empty
  string; and applying the replacement to the returned table again changes nothing.
\<close>

theorem materializer_no_empty_cells:
  assumes "create_df_from_api_data env p = Inr t"
  shows "(\<exists>t0. build_frame env p = Inr t0 \<and> columns t = columns t0
            \<and> length (rows t) = length (rows t0)
            \<and> (\<forall>i<length (rows t0). length (rows t ! i) = length (rows t0 ! i)
                 \<and> (\<forall>j<length (rows t0 ! i).
                       rows t ! i ! j
                         = (if rows t0 ! i ! j = PStr [] then PStr '' '' else rows t0 ! i ! j))))
         \<and> (\<forall>r\<in>set (rows t). \<forall>x\<in>set r. x \<noteq> PStr [])
         \<and> applymap sanitize_cell t = t"
proof -
  from assms obtain t0 where b: "build_frame env p = Inr t0"
    and t: "t = applymap sanitize_cell t0"
    by (auto simp: create_df_from_api_data_def split: sum.splits)
  have "\<forall>i<length (rows t0). length (rows t ! i) = length (rows t0 ! i)
          \<and> (\<forall>j<length (rows t0 ! i).
                rows t ! i ! j
                  = (if rows t0 ! i ! j = PStr [] then PStr '' '' else rows t0 ! i ! j))"
    by (simp add: t applymap_def sanitize_cell_empty sanitize_cell_other)
  moreover have "\<forall>r\<in>set (rows t). \<forall>x\<in>set r. x \<noteq> PStr []"
    by (auto simp add: t applymap_def sanitize_cell_not_empty)
  moreover have "applymap sanitize_cell t = t"
    by (simp add: t applymap_sanitize_twice)
  ultimately show ?thesis
    using b t by (simp add: applymap_def)
qed

theorem materializer_no_empty_cells_witness:
  "applymap sanitize_cell
     \<lparr>columns = [LStr ''q1'', LStr ''q2''],
      rows = [[PStr ''a'', PNone], [PStr ''b'', PStr '' ''], [PNone, PStr ''c'']]\<rparr>
   = \<lparr>columns = [LStr ''q1'', LStr ''q2''],
      rows = [[PStr ''a'', PNone], [PStr ''b'', PStr '' ''], [PNone, PStr ''c'']]\<rparr>"
  by (rule materializer_no_empty_cells
             [OF demo_records_table [of "demo_env 200 None ''PENDING''"],
              THEN conjunct2, THEN conjunct2])













section \<open>Output paths\<close>

lemma digit_char_is_digit: "is_digit (digit_char n)"
  unfolding digit_char_def is_digit_def by (rule nth_mem) simp

lemma stamp_shape:
  "length (strftime_Ymd d) = 8 \<and> length (strftime_HMS d) = 6
   \<and> list_all is_digit (strftime_Ymd d) \<and> list_all is_digit (strftime_HMS d)"
  by (simp add: strftime_Ymd_def strftime_HMS_def dec2_def dec4_def digit_char_is_digit)

lemma stamp_example:
  "strftime_Ymd \<lparr> year = 2016, month = 11, day = 4, hour = 9, minute = 5, second = 7 \<rparr>
     = ''20161104''
   \<and> strftime_HMS \<lparr> year = 2016, month = 11, day = 4, hour = 9, minute = 5, second = 7 \<rparr>
     = ''090507''"
  by (simp add: strftime_Ymd_def strftime_HMS_def dec2_def dec4_def digit_char_def)

lemma setup_output_filename_path:
  "setup_output_filename env self w base_path survey_name type extension = (Inr path, w') \<Longrightarrow>
     path = base_path @ project_name self @ ''/''
              @ (if use_timestamps self
                 then strftime_Ymd (datetime_now env w') @ ''_'' @ strftime_HMS (datetime_now env w')
                 else strftime_Ymd (datetime_now env w'))
              @ ''_'' @ survey_name @ ''_'' @ type @ ''.'' @ extension"
  by (auto simp add: setup_output_filename_def Let_def split: prod.splits option.splits if_splits)

lemma strftime_Ymd_same_day:
  "year d1 = year d2 \<Longrightarrow> month d1 = month d2 \<Longrightarrow> day d1 = day d2 \<Longrightarrow>
     strftime_Ymd d1 = strftime_Ymd d2"
  by (simp add: strftime_Ymd_def)

lemma setup_output_filename_deterministic:
  assumes "setup_output_filename env self w1 b s t e = (Inr p1, w1')"
      and "setup_output_filename env self w2 b s t e = (Inr p2, w2')"
      and "datetime_now env w1' = datetime_now env w2'
           \<or> (use_timestamps self = False
               \<and> year (datetime_now env w1') = year (datetime_now env w2')
               \<and> month (datetime_now env w1') = month (datetime_now env w2')
               \<and> day (datetime_now env w1') = day (datetime_now env w2'))"
  shows "p1 = p2"
  using setup_output_filename_path [OF assms(1)] setup_output_filename_path [OF assms(2)] assms(3)
  by (auto dest: strftime_Ymd_same_day)

lemma setup_output_filename_returns:
  "os_path_exists env (os w) (base_path @ project_name self)
     \<or> fst (os_mkdir env (os w) (base_path @ project_name self)) = None \<Longrightarrow>
   \<exists>path w'. setup_output_filename env self w base_path survey_name type extension
               = (Inr path, w')"
  by (auto simp add: setup_output_filename_def Let_def split: prod.splits option.splits if_splits)

lemma setup_output_filename_mkdir_error:
  "\<not> os_path_exists env (os w) (base_path @ project_name self) \<Longrightarrow>
   os_mkdir env (os w) (base_path @ project_name self) = (Some e, os1) \<Longrightarrow>
   setup_output_filename env self w base_path survey_name type extension
     = (Inl e, w\<lparr>os := os1\<rparr>)"
  by (simp add: setup_output_filename_def Let_def)

lemma setup_output_filename_world:
  "snd (setup_output_filename env self w base_path survey_name type extension)
     = (if os_path_exists env (os w) (base_path @ project_name self) then w
        else w\<lparr>os := snd (os_mkdir env (os w) (base_path @ project_name self))\<rparr>)"
  by (auto simp add: setup_output_filename_def Let_def split: prod.splits option.splits)

lemma checked_output_dir_separator:
  "checked_output_dir env w v = Inr p \<Longrightarrow>
     p \<noteq> [] \<and> (last p = CHR ''/'' \<or> last p = os_path_sep env)"
  by (auto simp add: checked_output_dir_def last_char_def
        split: pyval.splits if_splits sum.splits)

lemma write_df_to_disk_base_path:
  "write_df_to_disk env self w dataframe survey_name url_suffix = (Inr file_path, u) \<Longrightarrow>
     \<exists>dir u1. checked_output_dir env w (path_to_output_files self) = Inr dir
        \<and> setup_output_filename env self w dir survey_name
              (takeWhile (\<lambda>c. c \<noteq> CHR ''/'') url_suffix) ''feather'' = (Inr file_path, u1)"
  by (auto simp add: write_df_to_disk_def split: sum.splits prod.splits option.splits)

lemma get_survey_base_path:
  "fst (get_survey env self w tok survey_name True) = Inr result \<Longrightarrow>
     \<exists>dir json_path u1 u2.
        u1 = w\<lparr>trace := trace w @ [GET (base_url self @ ''surveys/'' @ tok)
                                      (api_token_header self)]\<rparr>
        \<and> checked_output_dir env u1 (path_to_output_files self) = Inr dir
        \<and> setup_output_filename env (self\<lparr>path_to_output_files := PStr dir\<rparr>) u1 dir
              survey_name ''survey'' ''json'' = (Inr json_path, u2)"
  by (auto simp add: get_survey_def requests_get_def Let_def
        split: sum.splits prod.splits)

text \<open>
  Claim C6, as amended. Whenever \<^verbatim>\<open>setup_output_filename\<close> returns, the path is the base
  path, the project name, a slash, the date as eight digits, followed by an underscore
  and the time as six digits exactly when time stamps are enabled, then an underscore,
  the survey name, an underscore, the artifact type, a dot and the extension. No
  separator is put between the base path and the project name, so for a base path that
  ends with a slash the sub-folder is inside it. The function returns when the sub-folder
  exists or \<^verbatim>\<open>os.mkdir\<close> creates it; when \<^verbatim>\<open>os.mkdir\<close> raises, so does the function, with
  that error; and it changes the world by that \<^verbatim>\<open>os.mkdir\<close> only. The base path that
  \<^verbatim>\<open>write_df_to_disk\<close> and \<^verbatim>\<open>get_survey\<close> pass is the checked output directory, which
  is not empty and ends with a slash or with \<^verbatim>\<open>os.path.sep\<close>. Two calls on the same
  inputs that both return, and whose clock readings are equal, or fall on the same day
  when time stamps are disabled, return the same path.
\<close>

theorem output_path_shape:
  fixes env :: "'a env"
  shows
  "(setup_output_filename env self w base_path survey_name type extension = (Inr path, w') \<longrightarrow>
      path = base_path @ project_name self @ ''/''
               @ (if use_timestamps self
                  then strftime_Ymd (datetime_now env w') @ ''_''
                         @ strftime_HMS (datetime_now env w')
                  else strftime_Ymd (datetime_now env w'))
               @ ''_'' @ survey_name @ ''_'' @ type @ ''.'' @ extension)
   \<and> (setup_output_filename env self w (base @ ''/'') survey_name type extension = (Inr path, w') \<longrightarrow>
      path = base @ ''/'' @ project_name self @ ''/''
               @ (if use_timestamps self
                  then strftime_Ymd (datetime_now env w') @ ''_''
                         @ strftime_HMS (datetime_now env w')
                  else strftime_Ymd (datetime_now env w'))
               @ ''_'' @ survey_name @ ''_'' @ type @ ''.'' @ extension)
   \<and> length (strftime_Ymd d) = 8 \<and> length (strftime_HMS d) = 6
   \<and> list_all is_digit (strftime_Ymd d) \<and> list_all is_digit (strftime_HMS d)
   \<and> (os_path_exists env (os w) (base_path @ project_name self)
        \<or> fst (os_mkdir env (os w) (base_path @ project_name self)) = None \<longrightarrow>
       (\<exists>p u. setup_output_filename env self w base_path survey_name type extension
                 = (Inr p, u)))
   \<and> (\<not> os_path_exists env (os w) (base_path @ project_name self)
        \<and> os_mkdir env (os w) (base_path @ project_name self) = (Some e, os1) \<longrightarrow>
       setup_output_filename env self w base_path survey_name type extension
         = (Inl e, w\<lparr>os := os1\<rparr>))
   \<and> (os_path_exists env (os w) (base_path @ project_name self) \<longrightarrow>
       snd (setup_output_filename env self w base_path survey_name type extension) = w)
   \<and> (\<not> os_path_exists env (os w) (base_path @ project_name self) \<longrightarrow>
       snd (setup_output_filename env self w base_path survey_name type extension)
         = w\<lparr>os := snd (os_mkdir env (os w) (base_path @ project_name self))\<rparr>)
   \<and> (checked_output_dir env w v = Inr dir \<longrightarrow>
       dir \<noteq> [] \<and> (last dir = CHR ''/'' \<or> last dir = os_path_sep env))
   \<and> (write_df_to_disk env self w dataframe survey_name url_suffix = (Inr file_path, u) \<longrightarrow>
       (\<exists>dir u1. checked_output_dir env w (path_to_output_files self) = Inr dir
          \<and> setup_output_filename env self w dir survey_name
                (takeWhile (\<lambda>c. c \<noteq> CHR ''/'') url_suffix) ''feather'' = (Inr file_path, u1)))
   \<and> (fst (get_survey env self w tok survey_name True) = Inr result \<longrightarrow>
       (\<exists>dir json_path u1 u2.
          u1 = w\<lparr>trace := trace w @ [GET (base_url self @ ''surveys/'' @ tok)
                                        (api_token_header self)]\<rparr>
          \<and> checked_output_dir env u1 (path_to_output_files self) = Inr dir
          \<and> setup_output_filename env (self\<lparr>path_to_output_files := PStr dir\<rparr>) u1 dir
                survey_name ''survey'' ''json'' = (Inr json_path, u2)))
   \<and> (setup_output_filename env self w1 base_path survey_name type extension = (Inr p1, w1')
        \<and> setup_output_filename env self w2 base_path survey_name type extension = (Inr p2, w2')
        \<and> (datetime_now env w1' = datetime_now env w2'
             \<or> (use_timestamps self = False
                 \<and> year (datetime_now env w1') = year (datetime_now env w2')
                 \<and> month (datetime_now env w1') = month (datetime_now env w2')
                 \<and> day (datetime_now env w1') = day (datetime_now env w2'))) \<longrightarrow>
       p1 = p2)"
proof -
  have c1: "setup_output_filename env self w base_path survey_name type extension = (Inr path, w') \<longrightarrow>
      path = base_path @ project_name self @ ''/''
               @ (if use_timestamps self
                  then strftime_Ymd (datetime_now env w') @ ''_''
                         @ strftime_HMS (datetime_now env w')
                  else strftime_Ymd (datetime_now env w'))
               @ ''_'' @ survey_name @ ''_'' @ type @ ''.'' @ extension"
    using setup_output_filename_path by blast
  have c2: "setup_output_filename env self w (base @ ''/'') survey_name type extension = (Inr path, w') \<longrightarrow>
      path = base @ ''/'' @ project_name self @ ''/''
               @ (if use_timestamps self
                  then strftime_Ymd (datetime_now env w') @ ''_''
                         @ strftime_HMS (datetime_now env w')
                  else strftime_Ymd (datetime_now env w'))
               @ ''_'' @ survey_name @ ''_'' @ type @ ''.'' @ extension"
    using setup_output_filename_path [of env self w "base @ ''/''" survey_name type extension
            path w']
    by simp
  note c3 = stamp_shape [of d, THEN conjunct1]
  note c4 = stamp_shape [of d, THEN conjunct2, THEN conjunct1]
  note c5 = stamp_shape [of d, THEN conjunct2, THEN conjunct2, THEN conjunct1]
  note c6 = stamp_shape [of d, THEN conjunct2, THEN conjunct2, THEN conjunct2]
  have c7: "os_path_exists env (os w) (base_path @ project_name self)
        \<or> fst (os_mkdir env (os w) (base_path @ project_name self)) = None \<longrightarrow>
       (\<exists>p u. setup_output_filename env self w base_path survey_name type extension
                 = (Inr p, u))"
    using setup_output_filename_returns by blast
  have c8: "\<not> os_path_exists env (os w) (base_path @ project_name self)
        \<and> os_mkdir env (os w) (base_path @ project_name self) = (Some e, os1) \<longrightarrow>
       setup_output_filename env self w base_path survey_name type extension
         = (Inl e, w\<lparr>os := os1\<rparr>)"
    by (simp add: setup_output_filename_mkdir_error)
  have c9: "os_path_exists env (os w) (base_path @ project_name self) \<longrightarrow>
       snd (setup_output_filename env self w base_path survey_name type extension) = w"
    and c10: "\<not> os_path_exists env (os w) (base_path @ project_name self) \<longrightarrow>
       snd (setup_output_filename env self w base_path survey_name type extension)
         = w\<lparr>os := snd (os_mkdir env (os w) (base_path @ project_name self))\<rparr>"
    by (simp_all add: setup_output_filename_world)
  have c11: "checked_output_dir env w v = Inr dir \<longrightarrow>
       dir \<noteq> [] \<and> (last dir = CHR ''/'' \<or> last dir = os_path_sep env)"
    using checked_output_dir_separator by blast
  have c12: "write_df_to_disk env self w dataframe survey_name url_suffix = (Inr file_path, u) \<longrightarrow>
       (\<exists>dir u1. checked_output_dir env w (path_to_output_files self) = Inr dir
          \<and> setup_output_filename env self w dir survey_name
                (takeWhile (\<lambda>c. c \<noteq> CHR ''/'') url_suffix) ''feather'' = (Inr file_path, u1))"
    using write_df_to_disk_base_path by blast
  have c13: "fst (get_survey env self w tok survey_name True) = Inr result \<longrightarrow>
       (\<exists>dir json_path u1 u2.
          u1 = w\<lparr>trace := trace w @ [GET (base_url self @ ''surveys/'' @ tok)
                                        (api_token_header self)]\<rparr>
          \<and> checked_output_dir env u1 (path_to_output_files self) = Inr dir
          \<and> setup_output_filename env (self\<lparr>path_to_output_files := PStr dir\<rparr>) u1 dir
                survey_name ''survey'' ''json'' = (Inr json_path, u2))"
    using get_survey_base_path by blast
  have c14: "setup_output_filename env self w1 base_path survey_name type extension = (Inr p1, w1')
        \<and> setup_output_filename env self w2 base_path survey_name type extension = (Inr p2, w2')
        \<and> (datetime_now env w1' = datetime_now env w2'
             \<or> (use_timestamps self = False
                 \<and> year (datetime_now env w1') = year (datetime_now env w2')
                 \<and> month (datetime_now env w1') = month (datetime_now env w2')
                 \<and> day (datetime_now env w1') = day (datetime_now env w2'))) \<longrightarrow>
       p1 = p2"
    using setup_output_filename_deterministic
            [of env self w1 base_path survey_name type extension p1 w1' w2 p2 w2']
    by blast
  from c1 c2 c3 c4 c5 c6 c7 c8 c9 c10 c11 c12 c13 c14 show ?thesis
    by (intro conjI)
qed

theorem output_path_shape_witness:
  "fst (setup_output_filename (demo_env 200 None ''PENDING'') demo_self demo_world
          ''out/'' ''Survey 1'' ''survey'' ''json'')
     = Inr ''out/proj/20161104_Survey 1_survey.json''
   \<and> setup_output_filename (unmakable (demo_env 200 None ''PENDING'')) demo_self demo_world
          ''out/'' ''Survey 1'' ''survey'' ''json''
     = (Inl (OSError ''[Errno 13] Permission denied''), demo_world\<lparr>os := ()\<rparr>)"
proof -
  let ?env = "demo_env 200 None ''PENDING''"
  have h: "os_path_exists ?env (os demo_world) (''out/'' @ project_name demo_self)
             \<or> fst (os_mkdir ?env (os demo_world) (''out/'' @ project_name demo_self)) = None"
    by (simp add: demo_env_def)
  note inst = output_path_shape [where env = ?env and self = demo_self and w = demo_world
                 and base_path = "''out/''" and survey_name = "''Survey 1''"
                 and type = "''survey''" and extension = "''json''"]
  from inst [THEN conjunct2, THEN conjunct2, THEN conjunct2, THEN conjunct2, THEN conjunct2,
             THEN conjunct2, THEN conjunct1, rule_format, OF h]
  obtain p u where e: "setup_output_filename ?env demo_self demo_world
                         ''out/'' ''Survey 1'' ''survey'' ''json'' = (Inr p, u)"
    by blast
  from inst [THEN conjunct1, rule_format, OF e]
  have "p = ''out/proj/20161104_Survey 1_survey.json''"
    by (simp add: demo_env_def demo_self_def stamp_example)
  with e have a: "fst (setup_output_filename ?env demo_self demo_world
                         ''out/'' ''Survey 1'' ''survey'' ''json'')
                    = Inr ''out/proj/20161104_Survey 1_survey.json''"
    by simp
  have g: "\<not> os_path_exists (unmakable ?env) (os demo_world) (''out/'' @ project_name demo_self)
           \<and> os_mkdir (unmakable ?env) (os demo_world) (''out/'' @ project_name demo_self)
               = (Some (OSError ''[Errno 13] Permission denied''), ())"
    by (simp add: unmakable_def demo_env_def)
  note b = output_path_shape
             [where env = "unmakable ?env" and self = demo_self and w = demo_world
                and base_path = "''out/''" and survey_name = "''Survey 1''"
                and type = "''survey''" and extension = "''json''",
              THEN conjunct2, THEN conjunct2, THEN conjunct2, THEN conjunct2, THEN conjunct2,
              THEN conjunct2, THEN conjunct2, THEN conjunct1, rule_format, OF g]
  from a b show ?thesis
    by (intro conjI)
qed

text \<open>
  Claim C6 as it was stated fails for a base path without a separator at its end: the
  project name is glued to it.
\<close>

theorem output_path_no_separator:
  "fst (setup_output_filename (demo_env 200 None ''PENDING'') demo_self demo_world
          ''out'' ''Survey 1'' ''survey'' ''json'')
     = Inr ''outproj/20161104_Survey 1_survey.json''
   \<and> ''outproj/20161104_Survey 1_survey.json''
       \<noteq> ''out'' @ ''/'' @ ''proj'' @ ''/'' @ ''20161104'' @ ''_'' @ ''Survey 1'' @ ''_''
           @ ''survey'' @ ''.'' @ ''json''"
  by (simp add: setup_output_filename_def demo_env_def demo_self_def demo_world_def Let_def
        stamp_example)

section \<open>Writing JSON to disk\<close>

lemma write_json_dump_failure:
  "file_open_w env (os w) p = (None, os1) \<Longrightarrow> json_dump env os1 d p = (Some e, os2) \<Longrightarrow>
   file_close env os2 p = (None, os3) \<Longrightarrow>
   fst (write_json_to_disk env w d p)
     = Inl (ValueError (''Unable to write json output to disk at '' @ os_path_abspath env os2 p))"
  by (simp add: write_json_to_disk_def)

lemma write_json_open_failure:
  "file_open_w env (os w) p = (Some e, os1) \<Longrightarrow> fst (write_json_to_disk env w d p) = Inl e"
  by (simp add: write_json_to_disk_def)

text \<open>
  Claim C8. A failure to write JSON to disk should surface as the \<^verbatim>\<open>ValueError\<close> whose
  message names the absolute path of the destination. The code does so when the
  serialisation fails, but the file is opened outside the \<^verbatim>\<open>try\<close>: on a disk where the
  destination cannot be opened, \<^verbatim>\<open>write_json_to_disk\<close> lets the \<^verbatim>\<open>IOError\<close> of \<^verbatim>\<open>open\<close>
  through, and the message with the absolute path is never built.
\<close>

theorem open_failure_not_wrapped:
  "fst (write_json_to_disk (unwritable (demo_env 200 None ''PENDING'')) demo_world
          (PDict [(''name'', PStr ''Survey 1'')]) ''missing/20161104_Survey 1_survey.json'')
     = Inl (IOError ''[Errno 2] No such file or directory'')"
  by (simp add: write_json_to_disk_def unwritable_def demo_env_def demo_world_def)

section \<open>The polling loop\<close>

text \<open>
  With a positive interval the loop ends, from any counter: every round issues one status
  request and, unless it is the last, sleeps once; a round starts only while the counter
  is within the limit.
\<close>

lemma poll_loop_terminates:
  fixes env :: "'a env"
  assumes pos: "0 < s"
  shows "\<exists>r w' k j. poll_loop env url hs mw s c prev w = Some (r, w')
           \<and> trace w' = trace w @ replicate k (GET url hs)
           \<and> int k * s \<le> max 0 (mw - c + s)
           \<and> slept w' = slept w + int j * s \<and> j \<le> k"
proof (induction "nat (mw - c + 1)" arbitrary: c prev w rule: less_induct)
  case less
  let ?goal = ?case
  show ?case
  proof (cases "c \<le> mw")
    case False
    then have "poll_loop env url hs mw s c prev w = Some (Inr prev, w)"
      by (subst poll_loop.simps) simp
    then show ?thesis
      by (intro exI [of _ "Inr prev"] exI [of _ w] exI [of _ 0]) simp
  next
    case True
    let ?w1 = "w\<lparr>trace := trace w @ [GET url hs]\<rparr>"
    have early: "\<And>r. poll_loop env url hs mw s c prev w = Some (r, ?w1) \<Longrightarrow> ?goal"
    proof -
      fix r
      assume "poll_loop env url hs mw s c prev w = Some (r, ?w1)"
      then show ?goal
        using True pos
        by (intro exI [of _ r] exI [of _ ?w1] exI [of _ 1] exI [of _ 0]) simp
    qed
    show ?thesis
    proof (cases "http_get env w url hs")
      case (Inl e)
      with True have "poll_loop env url hs mw s c prev w = Some (Inl e, ?w1)"
        by (subst poll_loop.simps) (simp add: requests_get_def)
      then show ?thesis by (rule early)
    next
      case (Inr r)
      show ?thesis
      proof (cases "loads env (content r)")
        case (Inl e)
        with True Inr have "poll_loop env url hs mw s c prev w = Some (Inl e, ?w1)"
          by (subst poll_loop.simps) (simp add: requests_get_def)
        then show ?thesis by (rule early)
      next
        case st: (Inr status)
        show ?thesis
        proof (cases "getitem2 status ''result'' ''percentComplete''")
          case (Inl e)
          with True Inr st have "poll_loop env url hs mw s c prev w = Some (Inl e, ?w1)"
            by (subst poll_loop.simps) (simp add: requests_get_def)
          then show ?thesis by (rule early)
        next
          case p: (Inr p)
          show ?thesis
          proof (cases "p = PNum 100")
            case True
            with \<open>c \<le> mw\<close> Inr st p
            have "poll_loop env url hs mw s c prev w = Some (Inr (Some status), ?w1)"
              by (subst poll_loop.simps) (simp add: requests_get_def)
            then show ?thesis by (rule early)
          next
            case False
            let ?w2 = "?w1\<lparr>slept := slept ?w1 + s\<rparr>"
            have step: "poll_loop env url hs mw s c prev w
                          = poll_loop env url hs mw s (c + s) (Some status) ?w2"
              using \<open>c \<le> mw\<close> Inr st p False pos
              by (subst poll_loop.simps) (simp add: requests_get_def time_sleep_def)
            have "nat (mw - (c + s) + 1) < nat (mw - c + 1)"
              using \<open>c \<le> mw\<close> pos by simp
            from less [OF this, of "Some status" ?w2]
            obtain r' w' k j where IH:
              "poll_loop env url hs mw s (c + s) (Some status) ?w2 = Some (r', w')"
              "trace w' = trace ?w2 @ replicate k (GET url hs)"
              "int k * s \<le> max 0 (mw - (c + s) + s)"
              "slept w' = slept ?w2 + int j * s" "j \<le> k"
              by blast
            have "int (Suc k) * s \<le> max 0 (mw - c + s)"
              using IH(3) \<open>c \<le> mw\<close> pos by (simp add: algebra_simps)
            moreover have "trace w' = trace w @ replicate (Suc k) (GET url hs)"
              using IH(2) by (simp add: replicate_app_Cons_same)
            moreover have "slept w' = slept w + int (Suc j) * s"
              using IH(4) by (simp add: algebra_simps)
            moreover have "Suc j \<le> Suc k"
              using IH(5) by simp
            ultimately show ?thesis
              using step IH(1)
              by (intro exI [of _ r'] exI [of _ w'] exI [of _ "Suc k"] exI [of _ "Suc j"]) simp
          qed
        qed
      qed
    qed
  qed
qed

lemma get_responseexports_returns:
  fixes env :: "'a env"
  assumes "0 < s"
  shows "\<exists>y. get_responseexports env self w tok name wtd gs fmt mw s kwargs = Some y"
proof -
  have nn: "poll_loop env url hs mw s c prev u \<noteq> None" for url hs c prev u
    using poll_loop_terminates [OF assms, of env url hs mw c prev u] by auto
  have triple: "\<exists>a b c. x = (a, b, c)" for x :: "(error + pyval \<times> string) \<times> qualtrics \<times> 'a world"
    by (cases x rule: prod_cases3) simp
  have "get_responseexports env self w tok name wtd gs fmt mw s kwargs \<noteq> None"
    by (simp add: get_responseexports_def Let_def nn triple
          split: prod.split sum.split pyval.split option.split)
  then show ?thesis
    by (simp only: not_None_eq)
qed

text \<open>
  With the interval zero the counter never moves: while the server keeps reporting an
  unfinished job, the loop cannot return.
\<close>

lemma poll_loop_never_returns:
  fixes env :: "'a env"
  assumes ret: "poll_loop env url hs mw s c prev w = Some y"
    and pending: "\<And>u. \<exists>r st p. http_get env u url hs = Inr r
                     \<and> json_loads env (content r) = Some st
                     \<and> getitem2 st ''result'' ''percentComplete'' = Inr p \<and> p \<noteq> PNum 100"
    and zero: "s = 0" and within: "c \<le> mw"
  shows False
proof -
  have "env = env \<longrightarrow> url = url \<longrightarrow> hs = hs \<longrightarrow> s = 0 \<longrightarrow> c \<le> mw \<longrightarrow> False"
  proof (rule poll_loop.raw_induct
      [where P = "\<lambda>env' url' hs' mw' s' c' prev' w' y'.
                    env' = env \<longrightarrow> url' = url \<longrightarrow> hs' = hs \<longrightarrow> s' = 0 \<longrightarrow> c' \<le> mw' \<longrightarrow> False",
       OF _ ret])
    fix f :: "'a env \<Rightarrow> string \<Rightarrow> headers \<Rightarrow> int \<Rightarrow> int \<Rightarrow> int \<Rightarrow> pyval option \<Rightarrow> 'a world
                \<Rightarrow> ((error + pyval option) \<times> 'a world) option"
      and env' url' hs' mw' s' c' prev' w' y'
    assume IH: "\<And>env' url' hs' mw' s' c' prev' w' y'.
                  f env' url' hs' mw' s' c' prev' w' = Some y' \<Longrightarrow>
                  env' = env \<longrightarrow> url' = url \<longrightarrow> hs' = hs \<longrightarrow> s' = 0 \<longrightarrow> c' \<le> mw' \<longrightarrow> False"
    assume body:
      "(if c' \<le> mw' then
          (case requests_get env' w' url' hs' of
             (Inl e, w1) \<Rightarrow> Some (Inl e, w1)
           | (Inr r, w1) \<Rightarrow>
               (case loads env' (content r) of
                  Inl e \<Rightarrow> Some (Inl e, w1)
                | Inr status \<Rightarrow>
                    (case getitem2 status ''result'' ''percentComplete'' of
                       Inl e \<Rightarrow> Some (Inl e, w1)
                     | Inr p \<Rightarrow>
                         if p = PNum 100 then Some (Inr (Some status), w1)
                         else
                           (case time_sleep s' w1 of
                              (Inl e, w2) \<Rightarrow> Some (Inl e, w2)
                            | (Inr u, w2) \<Rightarrow>
                                f env' url' hs' mw' s' (c' + s') (Some status) w2))))
        else Some (Inr prev', w')) = Some y'"
    show "env' = env \<longrightarrow> url' = url \<longrightarrow> hs' = hs \<longrightarrow> s' = 0 \<longrightarrow> c' \<le> mw' \<longrightarrow> False"
    proof (intro impI)
      assume e: "env' = env" "url' = url" "hs' = hs" "s' = 0" "c' \<le> mw'"
      obtain r st p where h: "http_get env w' url hs = Inr r"
        "json_loads env (content r) = Some st"
        "getitem2 st ''result'' ''percentComplete'' = Inr p" "p \<noteq> PNum 100"
        using pending by blast
      from body e h
      have "f env url hs mw' 0 c' (Some st) (w'\<lparr>trace := trace w' @ [GET url hs]\<rparr>) = Some y'"
        by (simp add: requests_get_def loads_def time_sleep_def)
      from IH [OF this] e show False by simp
    qed
  qed
  with zero within show False by simp
qed

text \<open>
  What the loop does achieve: for every non-negative \<^verbatim>\<open>max_wait_ms\<close> and every positive
  \<^verbatim>\<open>sleep_ms\<close> it ends, whatever the server answers. It issues at most
  \<^verbatim>\<open>max_wait_ms div sleep_ms + 1\<close> status requests and nothing else, and the arguments
  of its sleeps are a whole number of intervals, at most one per request, in total at
  most \<^verbatim>\<open>max_wait_ms + sleep_ms\<close>; and \<^verbatim>\<open>get_responseexports\<close> itself returns or raises.
\<close>

theorem polling_terminates:
  fixes env :: "'a env"
  assumes "0 \<le> max_wait_ms" and "0 < sleep_ms"
  shows "(\<exists>r w' k j. poll_loop env url hs max_wait_ms sleep_ms 0 None w = Some (r, w')
            \<and> trace w' = trace w @ replicate k (GET url hs)
            \<and> int k \<le> max_wait_ms div sleep_ms + 1
            \<and> slept w' = slept w + int j * sleep_ms \<and> j \<le> k
            \<and> slept w' - slept w \<le> max_wait_ms + sleep_ms)
         \<and> (\<exists>y. get_responseexports env self w0 tok name wtd gs fmt max_wait_ms sleep_ms kwargs
                   = Some y)"
proof -
  from poll_loop_terminates [OF assms(2), of env url hs max_wait_ms 0 None w]
  obtain r w' k j where run:
    "poll_loop env url hs max_wait_ms sleep_ms 0 None w = Some (r, w')"
    "trace w' = trace w @ replicate k (GET url hs)"
    "int k * sleep_ms \<le> max 0 (max_wait_ms - 0 + sleep_ms)"
    "slept w' = slept w + int j * sleep_ms" "j \<le> k"
    by blast
  from run(3) assms have bound: "int k * sleep_ms \<le> max_wait_ms + sleep_ms"
    by simp
  then have "int k * sleep_ms div sleep_ms \<le> (max_wait_ms + sleep_ms) div sleep_ms"
    by (rule zdiv_mono1) (rule assms(2))
  with assms(2) have k: "int k \<le> max_wait_ms div sleep_ms + 1"
    by simp
  have "int j * sleep_ms \<le> int k * sleep_ms"
    using run(5) assms(2) by (simp add: mult_right_mono)
  with bound run(4) have "slept w' - slept w \<le> max_wait_ms + sleep_ms"
    by simp
  with run k have "\<exists>r w' k j. poll_loop env url hs max_wait_ms sleep_ms 0 None w = Some (r, w')
            \<and> trace w' = trace w @ replicate k (GET url hs)
            \<and> int k \<le> max_wait_ms div sleep_ms + 1
            \<and> slept w' = slept w + int j * sleep_ms \<and> j \<le> k
            \<and> slept w' - slept w \<le> max_wait_ms + sleep_ms"
    by blast
  with get_responseexports_returns [OF assms(2)] show ?thesis
    by blast
qed

theorem polling_terminates_witness:
  "(\<exists>r w' k j.
      poll_loop (demo_env 200 None ''PENDING'') ''https://q.example/API/v3/responseexports/ES_1''
          [] 20000 1 0 None demo_world = Some (r, w')
      \<and> trace w' = trace demo_world
                     @ replicate k (GET ''https://q.example/API/v3/responseexports/ES_1'' [])
      \<and> int k \<le> 20001
      \<and> slept w' = slept demo_world + int j \<and> j \<le> k
      \<and> slept w' - slept demo_world \<le> 20001)
   \<and> (\<exists>y. get_responseexports (demo_env 200 None ''PENDING'') demo_self demo_world
              ''SV_1'' ''Survey 1'' False False ''json'' 20000 1 [] = Some y)"
proof -
  have h1: "(0::int) \<le> 20000" and h2: "(0::int) < 1"
    by simp_all
  from polling_terminates [OF h1 h2, of "demo_env 200 None ''PENDING''"
      "''https://q.example/API/v3/responseexports/ES_1''" "[]" demo_world
      demo_self demo_world "''SV_1''" "''Survey 1''" False False "''json''" "[]"]
  show ?thesis by simp
qed

lemma demo_always_pending:
  "\<exists>r st p. http_get (demo_env 200 None ''PENDING'') u
               ''https://q.example/API/v3/responseexports/ES_1'' hs = Inr r
     \<and> json_loads (demo_env 200 None ''PENDING'') (content r) = Some st
     \<and> getitem2 st ''result'' ''percentComplete'' = Inr p \<and> p \<noteq> PNum 100"
  by (simp add: demo_env_def demo_get_def demo_documents_def getitem2_def)

text \<open>
  Claim C9. For every non-negative \<^verbatim>\<open>max_wait_ms\<close> and \<^verbatim>\<open>sleep_ms\<close> the polling loop
  should end after finitely many status requests, also when the job never completes. The
  code measures the wait by adding \<^verbatim>\<open>sleep_ms\<close> to a counter: with the interval zero,
  which is non-negative, the counter stays at zero, the limit of 20000 is never passed,
  and while the server reports an unfinished job the call never returns.
\<close>

theorem zero_interval_never_returns:
  "get_responseexports (demo_env 200 None ''PENDING'') demo_self demo_world
       ''SV_1'' ''Survey 1'' False False ''json'' 20000 0 [] = None"
proof -
  have "poll_loop (demo_env 200 None ''PENDING'')
          ''https://q.example/API/v3/responseexports/ES_1'' hs 20000 0 0 prev u = None"
    for hs prev u
  proof (cases "poll_loop (demo_env 200 None ''PENDING'')
                  ''https://q.example/API/v3/responseexports/ES_1'' hs 20000 0 0 prev u")
    case None
    then show ?thesis .
  next
    case (Some y)
    from poll_loop_never_returns [OF Some demo_always_pending] show ?thesis
      by simp
  qed
  then show ?thesis
    by (simp add: get_responseexports_def demo_env_def demo_self_def demo_world_def
          demo_documents_def requests_post_def loads_def getitem2_def ok_status Let_def
          lower_def lower_char_def)
qed

section \<open>The deadline\<close>

text \<open>
  Claim C3. A job that never reaches 100 per cent within \<^verbatim>\<open>max_wait_ms\<close> must not come
  back as a success. The code leaves the loop when the counter passes the limit and goes
  on with the last status document read: when that document names a result file, the call
  returns its records as if the job had completed. Here the server reports 50 per cent at
  each of the three polls that a limit of 2 with an interval of 1 allows, and the call
  returns the records.
\<close>

theorem timeout_returns_success:
  "get_responseexports (demo_env 200 None ''STUCK'') demo_self demo_world
       ''SV_1'' ''Survey 1'' False False ''json'' 2 1 []
     = Some (Inr (demo_records, '' ''), demo_self,
             \<lparr> trace =
                 [POST ''https://q.example/API/v3/responseexports''
                    [(''surveyId'', PStr ''SV_1''), (''format'', PStr ''json''),
                     (''useLabels'', PBool True), (''useLocalTime'', PBool False)]
                    (api_token_header demo_self),
                  GET ''https://q.example/API/v3/responseexports/ES_1'' (api_token_header demo_self),
                  GET ''https://q.example/API/v3/responseexports/ES_1'' (api_token_header demo_self),
                  GET ''https://q.example/API/v3/responseexports/ES_1'' (api_token_header demo_self),
                  GET ''https://q.example/file/ES_1'' (api_token_header demo_self)],
               slept = 3,
               printed = [''Retrieved responseexports data for Survey 1''],
               os = () \<rparr>)"
  by (simp add: get_responseexports_def poll_loop.simps demo_defs requests_post_def
        requests_get_def loads_def getitem2_def time_sleep_def ok_def raise_for_status_def
        Let_def download_archive_entry_def finish_responseexports_def print_line_def
        export_form_fields_def optional_field_def defaulted_field_def lower_def lower_char_def)

section \<open>A completed export\<close>

lemma lower_url_suffix: "lower ''responseexports/'' = ''responseexports/''"
  by (simp add: lower_def lower_char_def)

lemma poll_world_0: "poll_world w url hs s 0 = w"
  by (simp add: poll_world_def)

lemma poll_world_Suc:
  "poll_world (w\<lparr>trace := trace w @ [GET url hs], slept := slept w + s\<rparr>) url hs s i
     = poll_world w url hs s (Suc i)"
  by (simp add: poll_world_def replicate_app_Cons_same algebra_simps)

text \<open>
  When the first \<open>k\<close> status documents are below 100 per cent, the next one is at 100
  and the \<open>k\<close> sleeps fit into the limit, the loop ends on that document, after
  \<open>k + 1\<close> status requests.
\<close>

lemma poll_loop_completes:
  fixes env :: "'a env"
  assumes "0 \<le> s"
      and "c + int k * s \<le> mw"
      and "\<forall>i<k. \<exists>r st p. http_get env (poll_world w url hs s i) url hs = Inr r
                    \<and> json_loads env (content r) = Some st
                    \<and> getitem2 st ''result'' ''percentComplete'' = Inr p \<and> p \<noteq> PNum 100"
      and "http_get env (poll_world w url hs s k) url hs = Inr r"
      and "json_loads env (content r) = Some st"
      and "getitem2 st ''result'' ''percentComplete'' = Inr (PNum 100)"
  shows "poll_loop env url hs mw s c prev w
           = Some (Inr (Some st),
                   (poll_world w url hs s k)
                     \<lparr>trace := trace (poll_world w url hs s k) @ [GET url hs]\<rparr>)"
  using assms
proof (induction k arbitrary: c prev w)
  case 0
  then show ?case
    by (subst poll_loop.simps) (simp add: poll_world_0 requests_get_def loads_def)
next
  case (Suc k)
  from Suc.prems(3)
  have "\<exists>r st p. http_get env (poll_world w url hs s 0) url hs = Inr r
          \<and> json_loads env (content r) = Some st
          \<and> getitem2 st ''result'' ''percentComplete'' = Inr p \<and> p \<noteq> PNum 100"
    by blast
  then obtain r0 st0 p0 where first: "http_get env w url hs = Inr r0"
      "json_loads env (content r0) = Some st0"
      "getitem2 st0 ''result'' ''percentComplete'' = Inr p0" "p0 \<noteq> PNum 100"
    by (auto simp add: poll_world_0)
  let ?w2 = "w\<lparr>trace := trace w @ [GET url hs], slept := slept w + s\<rparr>"
  have le: "c \<le> mw"
  proof -
    have "0 \<le> int (Suc k) * s"
      using Suc.prems(1) by simp
    with Suc.prems(2) show ?thesis
      by linarith
  qed
  have step: "poll_loop env url hs mw s c prev w
                = poll_loop env url hs mw s (c + s) (Some st0) ?w2"
    using le first Suc.prems(1)
    by (subst poll_loop.simps) (simp add: requests_get_def loads_def time_sleep_def)
  have a: "(c + s) + int k * s \<le> mw"
    using Suc.prems(2) by (simp add: algebra_simps)
  have b: "\<forall>i<k. \<exists>r st p. http_get env (poll_world ?w2 url hs s i) url hs = Inr r
                    \<and> json_loads env (content r) = Some st
                    \<and> getitem2 st ''result'' ''percentComplete'' = Inr p \<and> p \<noteq> PNum 100"
    using Suc.prems(3) by (simp add: poll_world_Suc)
  have c: "http_get env (poll_world ?w2 url hs s k) url hs = Inr r"
    using Suc.prems(4) by (simp add: poll_world_Suc)
  from Suc.IH [OF Suc.prems(1) a b c Suc.prems(5) Suc.prems(6), of "Some st0"]
  show ?case
    by (simp add: step poll_world_Suc)
qed

text \<open>
  Claim C1. Let the submission be accepted, and let the job complete: the status request
  number \<open>k\<close> is the first to observe \<^verbatim>\<open>percentComplete == 100\<close>, within the limit.
  Then \<^verbatim>\<open>get_responseexports\<close> downloads the file that this status document names,
  reads the entry that the archive lists first, whatever its name, and returns the
  \<^verbatim>\<open>responses\<close> value of the JSON document parsed from that entry as the record set,
  paired with the file name. It returns them in each of the four modes: the file name is
  blank when nothing is to be written, and the path that \<^verbatim>\<open>write_df_to_disk\<close> returns
  when the table is built and written; and when the survey is asked for as well, the pair
  is returned once \<^verbatim>\<open>get_survey\<close> has returned. In no mode is another record set
  returned.
\<close>

theorem export_returns_responses:
  fixes env :: "'a env"
  assumes post: "http_post env w (base_url self @ ''responseexports'')
             (export_form_fields tok fmt kwargs) (api_token_header self) = Inr r0"
      and accepted: "ok r0"
      and job: "json_loads env (content r0) = Some j0"
        "getitem2 j0 ''result'' ''id'' = Inr (PStr job)"
      and status_url: "status_url = base_url self @ ''responseexports/'' @ job"
      and w1: "w1 = w\<lparr>trace := trace w @ [POST (base_url self @ ''responseexports'')
                                            (export_form_fields tok fmt kwargs)
                                            (api_token_header self)]\<rparr>"
      and sleep: "0 \<le> sleep_ms"
      and within: "int k * sleep_ms \<le> max_wait_ms"
      and pending: "\<forall>i<k. \<exists>r st p.
             http_get env (poll_world w1 status_url (api_token_header self) sleep_ms i)
               status_url (api_token_header self) = Inr r
             \<and> json_loads env (content r) = Some st
             \<and> getitem2 st ''result'' ''percentComplete'' = Inr p \<and> p \<noteq> PNum 100"
      and complete:
        "http_get env (poll_world w1 status_url (api_token_header self) sleep_ms k)
           status_url (api_token_header self) = Inr rk"
        "json_loads env (content rk) = Some st"
        "getitem2 st ''result'' ''percentComplete'' = Inr (PNum 100)"
      and result_file: "getitem2 st ''result'' ''file'' = Inr (PStr file_url)"
      and w2: "w2 = (poll_world w1 status_url (api_token_header self) sleep_ms k)
                  \<lparr>trace := trace (poll_world w1 status_url (api_token_header self) sleep_ms k)
                              @ [GET status_url (api_token_header self)]\<rparr>"
      and download: "http_get env w2 file_url (api_token_header self) = Inr r1"
      and archive: "zip_open env (content r1) = Some z"
        "NameToInfo_keys z = entry_name # others"
        "zread z entry_name = Some response_data"
      and document: "json_loads env response_data = Some j"
        "getitem j ''responses'' = Inr responses"
      and w3: "w3 = w2\<lparr>trace := trace w2 @ [GET file_url (api_token_header self)]\<rparr>"
      and written: "write_to_disk \<longrightarrow>
             create_df_from_api_data env (PyObj responses) = Inr dataframe
             \<and> write_df_to_disk env self w3 dataframe name ''responseexports/''
                 = (Inr filename, w4)"
      and not_written: "\<not> write_to_disk \<longrightarrow>
             filename = '' ''
             \<and> w4 = print_line (''Retrieved responseexports data for '' @ name) w3"
      and survey: "with_survey \<longrightarrow>
             get_survey env self w4 tok name write_to_disk = (Inr survey, self', w5)"
      and no_survey: "\<not> with_survey \<longrightarrow> self' = self \<and> w5 = w4"
  shows "get_responseexports env self w tok name write_to_disk with_survey fmt
             max_wait_ms sleep_ms kwargs
           = Some (Inr (responses, filename), self', w5)
         \<and> (\<forall>wtd gs d f self'' w'.
               get_responseexports env self w tok name wtd gs fmt max_wait_ms sleep_ms kwargs =
                 Some (Inr (d, f), self'', w') \<longrightarrow> d = responses)"
proof -
  have "0 + int k * sleep_ms \<le> max_wait_ms"
    using within by simp
  from poll_loop_completes [OF sleep this pending complete, of None]
  have loop: "poll_loop env status_url (api_token_header self) max_wait_ms sleep_ms 0 None w1
                = Some (Inr (Some st), w2)"
    by (simp add: w2)
  have entry: "download_archive_entry env (api_token_header self) w2 st = (Inr response_data, w3)"
    using result_file download archive
    by (simp add: download_archive_entry_def requests_get_def w3)
  have run: "get_responseexports env self w tok name wtd gs fmt max_wait_ms sleep_ms kwargs
               = Some (finish_responseexports env self w3 response_data tok name wtd gs
                         ''responseexports/'')"
    for wtd gs
    using post accepted job loop entry unfolding status_url w1
    by (simp add: get_responseexports_def requests_post_def Let_def loads_def
          lower_url_suffix)
  have finish: "finish_responseexports env self w3 response_data tok name write_to_disk
                    with_survey ''responseexports/''
                  = (Inr (responses, filename), self', w5)"
  proof (cases write_to_disk)
    case True
    with written have a: "create_df_from_api_data env (PyObj responses) = Inr dataframe"
      and b: "write_df_to_disk env self w3 dataframe name ''responseexports/''
                = (Inr filename, w4)"
      by simp_all
    show ?thesis
    proof (cases with_survey)
      case True
      with survey \<open>write_to_disk\<close>
      have "get_survey env self w4 tok name True = (Inr survey, self', w5)"
        by simp
      with a b document True \<open>write_to_disk\<close> show ?thesis
        by (simp add: finish_responseexports_def loads_def)
    next
      case False
      with no_survey a b document \<open>write_to_disk\<close> show ?thesis
        by (simp add: finish_responseexports_def loads_def)
    qed
  next
    case False
    with not_written have a: "filename = '' ''"
      and b: "w4 = print_line (''Retrieved responseexports data for '' @ name) w3"
      by simp_all
    show ?thesis
    proof (cases with_survey)
      case True
      with survey \<open>\<not> write_to_disk\<close>
      have "get_survey env self w4 tok name False = (Inr survey, self', w5)"
        by simp
      with a b document True \<open>\<not> write_to_disk\<close> show ?thesis
        by (simp add: finish_responseexports_def loads_def)
    next
      case False
      with no_survey a b document \<open>\<not> write_to_disk\<close> show ?thesis
        by (simp add: finish_responseexports_def loads_def)
    qed
  qed
  have only: "d = responses"
    if "finish_responseexports env self w3 response_data tok name wtd gs ''responseexports/''
          = (Inr (d, f), self'', w')"
    for wtd gs d f self'' w'
    using that document
    by (auto simp add: finish_responseexports_def loads_def
          split: sum.splits prod.splits if_splits)
  show ?thesis
  proof (intro conjI allI impI)
    show "get_responseexports env self w tok name write_to_disk with_survey fmt
              max_wait_ms sleep_ms kwargs
            = Some (Inr (responses, filename), self', w5)"
      by (simp add: run finish)
  next
    fix wtd gs d f self'' w'
    assume "get_responseexports env self w tok name wtd gs fmt max_wait_ms sleep_ms kwargs
              = Some (Inr (d, f), self'', w')"
    then have "finish_responseexports env self w3 response_data tok name wtd gs
                 ''responseexports/'' = (Inr (d, f), self'', w')"
      by (simp add: run)
    then show "d = responses"
      by (rule only)
  qed
qed

theorem export_returns_responses_witness:
  "get_responseexports (demo_env 200 (Some 2) ''PENDING'') demo_self demo_world
       ''SV_1'' ''Survey 1'' False False ''json'' 20000 1 []
     = Some (Inr (demo_records, '' ''), demo_self,
             \<lparr> trace =
                 [POST ''https://q.example/API/v3/responseexports''
                    [(''surveyId'', PStr ''SV_1''), (''format'', PStr ''json''),
                     (''useLabels'', PBool True), (''useLocalTime'', PBool False)]
                    (api_token_header demo_self),
                  GET ''https://q.example/API/v3/responseexports/ES_1'' (api_token_header demo_self),
                  GET ''https://q.example/API/v3/responseexports/ES_1'' (api_token_header demo_self),
                  GET ''https://q.example/file/ES_1'' (api_token_header demo_self)],
               slept = 1,
               printed = [''Retrieved responseexports data for Survey 1''],
               os = () \<rparr>)
   \<and> get_responseexports (demo_env 200 (Some 2) ''PENDING'') demo_self demo_world
       ''SV_1'' ''Survey 1'' True True ''json'' 20000 1 []
     = Some (Inr (demo_records, ''out/proj/20161104_Survey 1_responseexports.feather''),
             demo_self\<lparr>path_to_output_files := PStr ''out/''\<rparr>,
             \<lparr> trace =
                 [POST ''https://q.example/API/v3/responseexports''
                    [(''surveyId'', PStr ''SV_1''), (''format'', PStr ''json''),
                     (''useLabels'', PBool True), (''useLocalTime'', PBool False)]
                    (api_token_header demo_self),
                  GET ''https://q.example/API/v3/responseexports/ES_1'' (api_token_header demo_self),
                  GET ''https://q.example/API/v3/responseexports/ES_1'' (api_token_header demo_self),
                  GET ''https://q.example/file/ES_1'' (api_token_header demo_self),
                  GET ''https://q.example/API/v3/surveys/SV_1'' (api_token_header demo_self)],
               slept = 1,
               printed =
                 [''/home/user/out/proj/20161104_Survey 1_responseexports.feather written to disk'',
                  ''/home/user/out/proj/20161104_Survey 1_survey.json written to disk''],
               os = () \<rparr>)"
proof -
  let ?env = "demo_env 200 (Some 2) ''PENDING''"
  let ?hs = "api_token_header demo_self"
  let ?post = "POST (base_url demo_self @ ''responseexports'')
                 (export_form_fields ''SV_1'' ''json'' []) ?hs"
  let ?url = "base_url demo_self @ ''responseexports/'' @ ''ES_1''"
  let ?w1 = "demo_world\<lparr>trace := trace demo_world @ [?post]\<rparr>"
  let ?w2 = "(poll_world ?w1 ?url ?hs 1 1)
               \<lparr>trace := trace (poll_world ?w1 ?url ?hs 1 1) @ [GET ?url ?hs]\<rparr>"
  let ?r0 = "\<lparr> status_code = 200, content = ''SUBMITTED'' \<rparr>"
  let ?st = "PDict [(''result'', PDict [(''percentComplete'', PNum 100),
                                       (''file'', PStr ''https://q.example/file/ES_1'')])]"
  let ?z = "\<lparr> NameToInfo_keys = [''Survey 1.json''],
              zread = map_of [(''Survey 1.json'', ''EXPORT'')] \<rparr>"
  have h1: "http_post ?env demo_world (base_url demo_self @ ''responseexports'')
              (export_form_fields ''SV_1'' ''json'' []) ?hs = Inr ?r0"
    by (simp add: demo_env_def)
  have h2: "ok ?r0"
    by (simp add: ok_status)
  have h3: "json_loads ?env (content ?r0)
              = Some (PDict [(''result'', PDict [(''id'', PStr ''ES_1'')])])"
    by (simp add: demo_env_def demo_documents_def)
  have h4: "getitem2 (PDict [(''result'', PDict [(''id'', PStr ''ES_1'')])]) ''result'' ''id''
              = Inr (PStr ''ES_1'')"
    by (simp add: getitem2_def)
  have h5: "(0::int) \<le> 1" "int 1 * 1 \<le> 20000"
    by simp_all
  have h6: "\<forall>i<1. \<exists>r st p. http_get ?env (poll_world ?w1 ?url ?hs 1 i) ?url ?hs = Inr r
               \<and> json_loads ?env (content r) = Some st
               \<and> getitem2 st ''result'' ''percentComplete'' = Inr p \<and> p \<noteq> PNum 100"
    by (simp add: demo_defs poll_world_def getitem2_def)
  have h7: "http_get ?env (poll_world ?w1 ?url ?hs 1 1) ?url ?hs
              = Inr \<lparr> status_code = 200, content = ''COMPLETE'' \<rparr>"
    by (simp add: demo_defs poll_world_def)
  have h8: "json_loads ?env (content \<lparr> status_code = 200, content = ''COMPLETE'' \<rparr>) = Some ?st"
    by (simp add: demo_env_def demo_documents_def)
  have h9: "getitem2 ?st ''result'' ''percentComplete'' = Inr (PNum 100)"
    by (simp add: getitem2_def)
  have h10: "getitem2 ?st ''result'' ''file'' = Inr (PStr ''https://q.example/file/ES_1'')"
    by (simp add: getitem2_def)
  have h11: "http_get ?env ?w2 ''https://q.example/file/ES_1'' ?hs
              = Inr \<lparr> status_code = 200, content = ''ARCHIVE'' \<rparr>"
    by (simp add: demo_env_def demo_get_def)
  have h12: "zip_open ?env (content \<lparr> status_code = 200, content = ''ARCHIVE'' \<rparr>) = Some ?z"
    by (simp add: demo_env_def demo_archive_def)
  have h13: "NameToInfo_keys ?z = ''Survey 1.json'' # []"
    by simp
  have h14: "zread ?z ''Survey 1.json'' = Some ''EXPORT''"
    by simp
  have h15: "json_loads ?env ''EXPORT'' = Some (PDict [(''responses'', demo_records)])"
    by (simp add: demo_env_def demo_documents_def)
  have h16: "getitem (PDict [(''responses'', demo_records)]) ''responses'' = Inr demo_records"
    by simp
  let ?w3 = "?w2\<lparr>trace := trace ?w2 @ [GET ''https://q.example/file/ES_1'' ?hs]\<rparr>"
  let ?table = "\<lparr>columns = [LStr ''q1'', LStr ''q2''],
                 rows = [[PStr ''a'', PNone], [PStr ''b'', PStr '' ''], [PNone, PStr ''c'']]\<rparr>"
  let ?feather = "''out/proj/20161104_Survey 1_responseexports.feather''"
  let ?w4 = "?w3\<lparr>printed := [''/home/user/'' @ ?feather @ '' written to disk'']\<rparr>"
  let ?self1 = "demo_self\<lparr>path_to_output_files := PStr ''out/''\<rparr>"
  let ?w5 = "?w4\<lparr>trace := trace ?w4 @ [GET ''https://q.example/API/v3/surveys/SV_1'' ?hs],
                  printed := printed ?w4
                    @ [''/home/user/out/proj/20161104_Survey 1_survey.json written to disk'']\<rparr>"
  note base = export_returns_responses
         [OF h1 h2 h3 h4 refl refl h5 h6 h7 h8 h9 h10 refl h11 h12 h13 h14 h15 h16 refl,
          THEN conjunct1]
  have vacuous: "False \<longrightarrow> P" "\<not> True \<longrightarrow> P" for P
    by simp_all
  have plain: "\<not> False \<longrightarrow> '' '' = '' ''
                 \<and> print_line (''Retrieved responseexports data for '' @ ''Survey 1'') ?w3
                   = print_line (''Retrieved responseexports data for '' @ ''Survey 1'') ?w3"
    and alone: "\<not> False \<longrightarrow> demo_self = demo_self
                 \<and> print_line (''Retrieved responseexports data for '' @ ''Survey 1'') ?w3
                   = print_line (''Retrieved responseexports data for '' @ ''Survey 1'') ?w3"
    by simp_all
  from base [OF vacuous(1) plain vacuous(1) alone]
  have a: "get_responseexports ?env demo_self demo_world ''SV_1'' ''Survey 1'' False False
             ''json'' 20000 1 []
           = Some (Inr (demo_records, '' ''), demo_self,
                   print_line (''Retrieved responseexports data for '' @ ''Survey 1'') ?w3)" .
  have written: "True \<longrightarrow> create_df_from_api_data ?env (PyObj demo_records) = Inr ?table
                   \<and> write_df_to_disk ?env demo_self ?w3 ?table ''Survey 1'' ''responseexports/''
                       = (Inr ?feather, ?w4)"
    by (simp add: demo_records_table write_df_to_disk_def checked_output_dir_def last_char_def
          setup_output_filename_def print_line_def Let_def demo_env_def demo_self_def
          demo_world_def poll_world_def stamp_example)
  have survey: "True \<longrightarrow> get_survey ?env demo_self ?w4 ''SV_1'' ''Survey 1'' True
                   = (Inr (PDict [(''name'', PStr ''Survey 1'')]), ?self1, ?w5)"
    by (simp add: get_survey_def requests_get_def loads_def checked_output_dir_def last_char_def
          setup_output_filename_def write_json_to_disk_def print_line_def Let_def demo_defs
          poll_world_def stamp_example)
  from base [OF written vacuous(2) survey vacuous(2)]
  have b: "get_responseexports ?env demo_self demo_world ''SV_1'' ''Survey 1'' True True
             ''json'' 20000 1 []
           = Some (Inr (demo_records, ?feather), ?self1, ?w5)" .
  show ?thesis
    unfolding a b
    by (simp add: demo_world_def demo_self_def print_line_def poll_world_def
          export_form_fields_def optional_field_def defaulted_field_def lower_def
          lower_char_def)
qed

end
